theory Spec2Isabelle
  imports Main
begin

section \<open>JavaScript strings and values\<close>

text \<open>
  The CRUD service works on query-string keys and values. The string primitives it uses
  are modelled on \<open>string\<close> (a list of characters): \<open>String.prototype.includes\<close>,
  \<open>String.prototype.replace\<close> with a string pattern (only the first occurrence is
  replaced), \<open>String.prototype.split\<close> with a one-character separator,
  \<open>Array.prototype.toString\<close> on an array of strings, and \<open>parseInt(s, 10)\<close>.
\<close>

fun starts_with :: "string \<Rightarrow> string \<Rightarrow> bool" where
  "starts_with s [] = True"
| "starts_with [] (p # ps) = False"
| "starts_with (c # cs) (p # ps) = (c = p \<and> starts_with cs ps)"

text \<open>\<open>js_includes s pat\<close> is \<open>s.includes(pat)\<close>: \<open>pat\<close> occurs somewhere in \<open>s\<close>.\<close>

fun js_includes :: "string \<Rightarrow> string \<Rightarrow> bool" where
  "js_includes [] pat = (pat = [])"
| "js_includes (c # cs) pat = (starts_with (c # cs) pat \<or> js_includes cs pat)"

text \<open>\<open>js_replace s pat rep\<close> is \<open>s.replace(pat, rep)\<close> for a string \<open>pat\<close> and a
  replacement without \<open>$\<close> patterns: the leftmost occurrence is replaced, the rest of
  the string is kept.\<close>

fun js_replace :: "string \<Rightarrow> string \<Rightarrow> string \<Rightarrow> string" where
  "js_replace [] pat rep = (if pat = [] then rep else [])"
| "js_replace (c # cs) pat rep =
     (if starts_with (c # cs) pat then rep @ drop (length pat) (c # cs)
      else c # js_replace cs pat rep)"

text \<open>\<open>js_split s sep\<close> is \<open>s.split(sep)\<close> for a separator of one character. The
  result is never empty: \<open>''''.split(',')\<close> is \<open>['''']\<close>.\<close>

fun js_split :: "string \<Rightarrow> char \<Rightarrow> string list" where
  "js_split [] sep = [[]]"
| "js_split (c # cs) sep =
     (if c = sep then [] # js_split cs sep
      else (case js_split cs sep of [] \<Rightarrow> [[c]] | x # xs \<Rightarrow> (c # x) # xs))"

fun js_join :: "string list \<Rightarrow> string \<Rightarrow> string" where
  "js_join [] sep = []"
| "js_join [x] sep = x"
| "js_join (x # y # ys) sep = x @ sep @ js_join (y # ys) sep"

text \<open>A query-string value has the declared type \<open>string | string[]\<close>.\<close>

datatype qval = QStr string | QArr "string list"

text \<open>\<open>toString()\<close>, also what a template literal and \<open>parseInt\<close> apply to their
  argument: an array of strings is joined with commas.\<close>

fun qval_toString :: "qval \<Rightarrow> string" where
  "qval_toString (QStr s) = s"
| "qval_toString (QArr xs) = js_join xs '',''"

text \<open>Truthiness of an optional query-string value: \<open>undefined\<close> and the empty string
  are falsy, an array is truthy.\<close>

fun qval_truthy :: "qval option \<Rightarrow> bool" where
  "qval_truthy None = False"
| "qval_truthy (Some (QStr s)) = (s \<noteq> [])"
| "qval_truthy (Some (QArr xs)) = True"

definition is_js_space :: "char \<Rightarrow> bool" where
  "is_js_space c = ((of_char c :: nat) \<in> {9, 10, 11, 12, 13, 32})"

definition is_digit :: "char \<Rightarrow> bool" where
  "is_digit c = (48 \<le> (of_char c :: nat) \<and> (of_char c :: nat) \<le> 57)"

definition digits_value :: "string \<Rightarrow> int" where
  "digits_value ds = foldl (\<lambda>acc c. 10 * acc + (int (of_char c) - 48)) 0 ds"

text \<open>
  \<open>parseInt(s, 10)\<close>: leading white space is skipped (the ASCII white-space characters
  are modelled), an optional sign is read, then the longest run of decimal digits; with no
  digit the result is \<open>NaN\<close>, here \<open>None\<close>. Numbers are mathematical integers (exact for
  JavaScript below \<open>2^53\<close>); \<open>-0\<close> is \<open>0\<close>.
\<close>

definition js_parseInt :: "string \<Rightarrow> int option" where
  "js_parseInt s =
     (let s1 = dropWhile is_js_space s;
          neg = (case s1 of [] \<Rightarrow> False | c # _ \<Rightarrow> c = CHR ''-'');
          s2 = (case s1 of [] \<Rightarrow> []
                | c # r \<Rightarrow> if c = CHR ''-'' \<or> c = CHR ''+'' then r else s1);
          ds = takeWhile is_digit s2
      in if ds = [] then None
         else Some (if neg then - digits_value ds else digits_value ds))"

text \<open>\<open>parseInt(v as string, 10) || dflt\<close> for an optional query-string value:
  \<open>undefined\<close> parses to \<open>NaN\<close>; \<open>NaN\<close> and \<open>0\<close> are falsy.\<close>

definition parseInt_or :: "qval option \<Rightarrow> int \<Rightarrow> int" where
  "parseInt_or v dflt =
     (case v of
        None \<Rightarrow> dflt
      | Some q \<Rightarrow> (case js_parseInt (qval_toString q) of
                    None \<Rightarrow> dflt
                  | Some n \<Rightarrow> if n = 0 then dflt else n))"

section \<open>Manifest model\<close>

datatype PropType = String | Number | Link | Text | RichText | Money | Date | Timestamp
  | Email | Boolean | Password | Choice | Location | File | Image

text \<open>The fields \<open>name\<close>, \<open>type\<close> and \<open>hidden\<close> of a \<open>PropertyManifest\<close>, and
  \<open>name\<close> and \<open>type\<close> of a \<open>RelationshipManifest\<close>, carry a prefix here because record
  fields share one name space. An optional boolean field that is absent is \<open>False\<close>.\<close>

record PropertyManifest =
  prop_name :: string
  prop_type :: PropType
  prop_hidden :: bool

datatype RelationshipType = OneToMany | ManyToOne | ManyToMany

record RelationshipManifest =
  rel_name :: string
  rel_type :: RelationshipType
  eager :: bool
  owningSide :: bool

record EntityManifest =
  className :: string
  slug :: string
  mainProp :: string
  properties :: "PropertyManifest list"
  relationships :: "RelationshipManifest list"
  authenticable :: bool

text \<open>The part of the storage engine's metadata that the service reads:
  \<open>relationMetadata.propertyName\<close> and
  \<open>relationMetadata.inverseEntityMetadata.targetName\<close>.\<close>

record RelationMetadata =
  propertyName :: string
  inverseTargetName :: string

record EntityMetadata =
  targetName :: string
  relations :: "RelationMetadata list"

section \<open>Errors\<close>

datatype HttpStatus = BAD_REQUEST | NOT_FOUND

datatype ValidationError =
  ValidationError (property: string) (constraints: "(string \<times> string) list")
    (children: "ValidationError list")

datatype response = Message string | Errors "ValidationError list"

datatype error =
    HttpException response HttpStatus
  | NotFoundException string
  | TypeError string
  | SyntaxError string

section \<open>The query builder\<close>

text \<open>
  The service drives the storage engine's \<open>SelectQueryBuilder\<close>. Its state is modelled by
  the expressions the calls leave behind, with the builder's documented behaviour:
  \<open>select\<close> sets the selection and \<open>addSelect\<close> extends it, \<open>leftJoin\<close> adds a join,
  \<open>where\<close> sets the condition (a condition set before is dropped) and merges the given
  parameters into the parameter map by name, \<open>orderBy\<close> sets the ordering.
\<close>

datatype OrderDir = ASC | DESC

datatype json = JNull | JBool bool | JNum int | JStr string | JArr "json list"
  | JObj "(string \<times> json) list"

datatype param = PValue qval | PList json | PNumber int

record SelectQueryBuilder =
  main_alias :: string
  selects :: "string list"
  joins :: "(string \<times> string) list"
  wheres :: "string list"
  parameters :: "string \<rightharpoonup> param"
  orderBys :: "(string \<times> OrderDir) list"

definition createQueryBuilder :: "string \<Rightarrow> SelectQueryBuilder" where
  "createQueryBuilder a =
     \<lparr>main_alias = a, selects = [], joins = [], wheres = [], parameters = Map.empty,
      orderBys = []\<rparr>"

definition select :: "SelectQueryBuilder \<Rightarrow> string list \<Rightarrow> SelectQueryBuilder" where
  "select query cols = query\<lparr>selects := cols\<rparr>"

definition addSelect :: "SelectQueryBuilder \<Rightarrow> string list \<Rightarrow> SelectQueryBuilder" where
  "addSelect query cols = query\<lparr>selects := selects query @ cols\<rparr>"

definition leftJoin :: "SelectQueryBuilder \<Rightarrow> string \<Rightarrow> string \<Rightarrow> SelectQueryBuilder" where
  "leftJoin query prop a = query\<lparr>joins := joins query @ [(prop, a)]\<rparr>"

definition where_clause ::
  "SelectQueryBuilder \<Rightarrow> string \<Rightarrow> (string \<times> param) list \<Rightarrow> SelectQueryBuilder" where
  "where_clause query cond ps =
     query\<lparr>wheres := [cond], parameters := parameters query ++ map_of ps\<rparr>"

definition orderBy :: "SelectQueryBuilder \<Rightarrow> string \<Rightarrow> OrderDir \<Rightarrow> SelectQueryBuilder" where
  "orderBy query col dir = query\<lparr>orderBys := [(col, dir)]\<rparr>"

section \<open>Entities and the storage engine\<close>

text \<open>
  A \<open>BaseEntity\<close> is a JavaScript object: the list of its entries. \<open>js_assign\<close> is the
  assignment \<open>obj[key] = v\<close> and \<open>js_spread a b\<close> is \<open>{...a, ...b}\<close>.
\<close>

type_synonym BaseEntity = "(string \<times> json) list"

definition js_assign :: "(string \<times> 'v) list \<Rightarrow> string \<Rightarrow> 'v \<Rightarrow> (string \<times> 'v) list" where
  "js_assign obj key v =
     (if key \<in> set (map fst obj)
      then map (\<lambda>(k, w). if k = key then (k, v) else (k, w)) obj
      else obj @ [(key, v)])"

definition js_spread :: "(string \<times> 'v) list \<Rightarrow> (string \<times> 'v) list \<Rightarrow> (string \<times> 'v) list" where
  "js_spread a b = foldl (\<lambda>acc (k, v). js_assign acc k v) a b"

text \<open>Truthiness of an optional value: \<open>undefined\<close>, \<open>null\<close>, \<open>false\<close>, \<open>0\<close> and the
  empty string are falsy.\<close>

fun js_truthy :: "json option \<Rightarrow> bool" where
  "js_truthy None = False"
| "js_truthy (Some JNull) = False"
| "js_truthy (Some (JBool b)) = b"
| "js_truthy (Some (JNum n)) = (n \<noteq> 0)"
| "js_truthy (Some (JStr s)) = (s \<noteq> [])"
| "js_truthy (Some (JArr xs)) = True"
| "js_truthy (Some (JObj kvs)) = True"

text \<open>The property \<open>length\<close> of a value that is neither \<open>undefined\<close> nor \<open>null\<close>.\<close>

fun js_length :: "json \<Rightarrow> json option" where
  "js_length (JArr xs) = Some (JNum (int (length xs)))"
| "js_length (JStr s) = Some (JNum (int (length s)))"
| "js_length (JObj kvs) = map_of kvs ''length''"
| "js_length v = None"

text \<open>
  The storage engine keeps, for each repository, the rows by id and, for each row and
  relation name, the related items. \<open>repository_findOne\<close> is
  \<open>findOne({where: {id}, relations})\<close>: the row, with every requested relation loaded as an
  array. \<open>repository_delete\<close> is \<open>delete(id)\<close>: the row with that id is removed and the
  result reports how many rows were affected.
\<close>

record Repository =
  rows :: "int \<rightharpoonup> BaseEntity"
  related :: "int \<Rightarrow> string \<Rightarrow> BaseEntity list"

type_synonym database = "string \<Rightarrow> Repository"

record DeleteResult =
  affected :: nat

definition repository_findOne :: "Repository \<Rightarrow> int \<Rightarrow> string list \<Rightarrow> BaseEntity option" where
  "repository_findOne repo i rels =
     (case rows repo i of
        None \<Rightarrow> None
      | Some row \<Rightarrow> Some (map (\<lambda>n. (n, JArr (map JObj (related repo i n)))) rels @ row))"

definition repository_delete :: "Repository \<Rightarrow> int \<Rightarrow> DeleteResult \<times> Repository" where
  "repository_delete repo i =
     (\<lparr>affected = (if rows repo i = None then 0 else 1)\<rparr>,
      repo\<lparr>rows := (rows repo)(i := None)\<rparr>)"

section \<open>Collaborators of the CRUD service\<close>

text \<open>
  The services injected into \<open>CrudService\<close>, the helpers of \<open>@repo/helpers\<close> and the
  constants and enumerations of \<open>@repo/types\<close> and \<open>../../constants\<close> are defined in
  other modules. They are parameters of the model, collected in one record:
  \<^item> \<open>getEntityManifest\<close>: \<open>manifestService.getEntityManifest({className, slug, fullVersion})\<close>,
    which may throw;
  \<^item> \<open>getEntityMetadata\<close>: \<open>entityService.getEntityMetadata({className})\<close>;
  \<^item> \<open>getEntityRepository\<close>: \<open>entityService.getEntityRepository\<close>, called with
    \<open>{entitySlug}\<close> or \<open>{entityMetadata}\<close>, giving the key of the repository in the
    database;
  \<^item> \<open>camelize\<close>: the alias helper;
  \<^item> \<open>WhereKeySuffix_values\<close>: \<open>Object.values(WhereKeySuffix)\<close>, in declaration order;
  \<^item> \<open>operatorOfSuffix\<close>: \<open>getRecordKeyByValue(whereOperatorKeySuffix, suffix)\<close>, the
    operator as it is written into the condition;
  \<^item> \<open>WhereOperator_In\<close>: the enumeration value \<open>WhereOperator.In\<close>;
  \<^item> \<open>JSON_parse\<close>: \<open>JSON.parse\<close>, \<open>None\<close> when it throws a \<open>SyntaxError\<close>;
  \<^item> \<open>repository_create\<close>: \<open>entityRepository.create(dto)\<close>, which builds an entity
    object and does not touch the database;
  \<^item> \<open>fetchRelationItemsFromDto\<close>: \<open>relationshipService.fetchRelationItemsFromDto\<close>,
    which reads the database and may throw;
  \<^item> \<open>SHA3\<close>: \<open>SHA3(v).toString()\<close>;
  \<^item> \<open>validate\<close>: \<open>validationService.validate(item, manifest, {isUpdate})\<close>;
  \<^item> \<open>repository_save\<close>: \<open>entityRepository.save(item)\<close>, the write to the repository.
\<close>

record manifest_lookup =
  lookup_className :: "string option"
  lookup_slug :: "string option"
  lookup_fullVersion :: "bool option"

datatype repository_lookup = BySlug string | ByMetadata EntityMetadata

record externals =
  getEntityManifest :: "manifest_lookup \<Rightarrow> error + EntityManifest"
  getEntityMetadata :: "string \<Rightarrow> error + EntityMetadata"
  getEntityRepository :: "repository_lookup \<Rightarrow> error + string"
  camelize :: "string list \<Rightarrow> string"
  QUERY_PARAMS_RESERVED_WORDS :: "string list"
  DEFAULT_RESULTS_PER_PAGE :: int
  WhereKeySuffix_values :: "string list"
  operatorOfSuffix :: "string \<Rightarrow> string"
  WhereOperator_In :: string
  JSON_parse :: "string \<Rightarrow> json option"
  repository_create :: "string \<Rightarrow> BaseEntity \<Rightarrow> BaseEntity"
  fetchRelationItemsFromDto ::
    "database \<Rightarrow> BaseEntity \<Rightarrow> RelationshipManifest list \<Rightarrow> error + BaseEntity"
  SHA3 :: "json option \<Rightarrow> string"
  validate :: "BaseEntity \<Rightarrow> EntityManifest \<Rightarrow> bool \<Rightarrow> ValidationError list"
  repository_save :: "Repository \<Rightarrow> BaseEntity \<Rightarrow> (error + BaseEntity) \<times> Repository"

section \<open>Read path\<close>

subsection \<open>Visible properties\<close>

text \<open>\<open>CrudService.getVisibleProps\<close>. An absent \<open>fullVersion\<close> is falsy: the flag is a
  \<open>bool\<close> here, \<open>False\<close> when the caller omits it.\<close>

definition getVisibleProps :: "PropertyManifest list \<Rightarrow> string \<Rightarrow> bool \<Rightarrow> string list" where
  "getVisibleProps props a fullVersion =
     (a @ ''.id'') #
     map (\<lambda>prop. a @ ''.'' @ prop_name prop)
       (filter (\<lambda>prop. fullVersion \<or> \<not> prop_hidden prop)
         (filter (\<lambda>prop. prop_name prop \<noteq> ''password'') props))"

subsection \<open>Loading relations\<close>

text \<open>\<open>requestedRelations?.includes(name)\<close>: with no list the optional call yields
  \<open>undefined\<close>, which is falsy.\<close>

definition requested_includes :: "string list option \<Rightarrow> string \<Rightarrow> bool" where
  "requested_includes requestedRelations n =
     (case requestedRelations of None \<Rightarrow> False | Some rs \<Rightarrow> n \<in> set rs)"

text \<open>The list handed to the recursive call: the relation just traversed is filtered out
  and \<open>name.\<close> is removed from each remaining path (by \<open>replace\<close>, so at its leftmost
  occurrence).\<close>

definition prune_requested :: "string list option \<Rightarrow> string \<Rightarrow> string list option" where
  "prune_requested requestedRelations n =
     map_option (\<lambda>rs. map (\<lambda>r. js_replace r (n @ ''.'') '''') (filter (\<lambda>r. r \<noteq> n) rs))
       requestedRelations"

text \<open>
  \<open>CrudService.loadRelations\<close>. The \<open>forEach\<close> over \<open>entityMetadata.relations\<close> is the
  recursion over the list; the query builder is threaded through. The method calls itself
  for the related entity, and nothing in the source bounds the depth of these calls, so the
  model carries fuel: one unit is spent per nested call, and \<open>None\<close> means that the fuel
  did not suffice. An exception (a missing relationship manifest, a failing collaborator)
  ends the whole loop.
\<close>

fun loadRelations_forEach ::
  "nat \<Rightarrow> externals \<Rightarrow> SelectQueryBuilder \<Rightarrow> RelationMetadata list \<Rightarrow>
   RelationshipManifest list \<Rightarrow> string list option \<Rightarrow> string \<Rightarrow>
   (error + SelectQueryBuilder) option" where
  "loadRelations_forEach fuel ext query [] rels requestedRelations a = Some (Inr query)"
| "loadRelations_forEach fuel ext query (relationMetadata # rest) rels requestedRelations a =
    (case find (\<lambda>r. rel_name r = propertyName relationMetadata) rels of
       None \<Rightarrow> Some (Inl (TypeError ''Cannot read properties of undefined (reading eager)''))
     | Some relationshipManifest \<Rightarrow>
       if \<not> eager relationshipManifest \<and>
          \<not> requested_includes requestedRelations (propertyName relationMetadata)
       then loadRelations_forEach fuel ext query rest rels requestedRelations a
       else
         (let aliasName = camelize ext [a, propertyName relationMetadata];
              query1 = leftJoin query (a @ ''.'' @ propertyName relationMetadata) aliasName
          in case getEntityManifest ext
                    \<lparr>lookup_className = Some (inverseTargetName relationMetadata),
                     lookup_slug = None, lookup_fullVersion = None\<rparr> of
               Inl e \<Rightarrow> Some (Inl e)
             | Inr relationEntityManifest \<Rightarrow>
               (let query2 = addSelect query1
                      (getVisibleProps (properties relationEntityManifest) aliasName False)
                in case getEntityMetadata ext (inverseTargetName relationMetadata) of
                     Inl e \<Rightarrow> Some (Inl e)
                   | Inr relationEntityMetadata \<Rightarrow>
                     if relations relationEntityMetadata \<noteq> [] then
                       (case fuel of
                          0 \<Rightarrow> None
                        | Suc n \<Rightarrow>
                          (case loadRelations_forEach n ext query2
                                  (relations relationEntityMetadata)
                                  (relationships relationEntityManifest)
                                  (prune_requested requestedRelations
                                     (propertyName relationMetadata))
                                  aliasName of
                             None \<Rightarrow> None
                           | Some (Inl e) \<Rightarrow> Some (Inl e)
                           | Some (Inr query3) \<Rightarrow>
                               loadRelations_forEach fuel ext query3 rest rels
                                 requestedRelations a))
                     else loadRelations_forEach fuel ext query2 rest rels
                            requestedRelations a)))"

definition loadRelations ::
  "nat \<Rightarrow> externals \<Rightarrow> SelectQueryBuilder \<Rightarrow> EntityMetadata \<Rightarrow>
   RelationshipManifest list \<Rightarrow> string list option \<Rightarrow> string \<Rightarrow>
   (error + SelectQueryBuilder) option" where
  "loadRelations fuel ext query entityMetadata rels requestedRelations a =
     loadRelations_forEach fuel ext query (relations entityMetadata) rels requestedRelations a"

subsection \<open>Filters\<close>

text \<open>\<open>propName.split('.')[0]\<close> and \<open>propName.split('.')[1]\<close>; the latter is
  \<open>undefined\<close> for a name without a dot and is then printed as such by the template
  literal.\<close>

definition first_segment :: "string \<Rightarrow> string" where
  "first_segment s = (case js_split s (CHR ''.'') of [] \<Rightarrow> [] | x # _ \<Rightarrow> x)"

definition second_segment :: "string \<Rightarrow> string" where
  "second_segment s =
     (case js_split s (CHR ''.'') of
        _ # x # _ \<Rightarrow> x
      | _ \<Rightarrow> ''undefined'')"

text \<open>\<open>Object.values(WhereKeySuffix).reverse().find((suffix) => key.includes(suffix))\<close>:
  the suffixes are tried in reverse declaration order and the first one that the key
  contains, at any position, is taken.\<close>

definition selected_suffix :: "externals \<Rightarrow> string \<Rightarrow> string option" where
  "selected_suffix ext key =
     find (\<lambda>suffix. js_includes key suffix) (rev (WhereKeySuffix_values ext))"

text \<open>The body of the \<open>forEach\<close> in \<open>CrudService.filterQuery\<close>, for one entry
  \<open>[key, value]\<close> of the query parameters.\<close>

definition filterQuery_entry ::
  "externals \<Rightarrow> EntityManifest \<Rightarrow> SelectQueryBuilder \<Rightarrow> string \<Rightarrow> qval \<Rightarrow>
   error + SelectQueryBuilder" where
  "filterQuery_entry ext entityManifest query key val =
     (case selected_suffix ext key of
        None \<Rightarrow>
          Inl (HttpException (Message ''Query param key should include an operator suffix'')
                 BAD_REQUEST)
      | Some suffix \<Rightarrow>
          if suffix = [] then
            Inl (HttpException (Message ''Query param key should include an operator suffix'')
                   BAD_REQUEST)
          else
            (let operator = operatorOfSuffix ext suffix;
                 propName = js_replace key suffix [];
                 prop = find (\<lambda>prop. prop_name prop = propName \<and> \<not> prop_hidden prop)
                          (properties entityManifest);
                 relation = find (\<lambda>relationship. rel_name relationship = first_segment propName)
                              (relationships entityManifest)
             in if prop = None \<and> relation = None then
                  Inl (HttpException
                         (Message (''Property '' @ propName @ '' does not exist in '' @
                                   className entityManifest))
                         BAD_REQUEST)
                else
                  (let whereKey =
                         (case relation of
                            Some r \<Rightarrow>
                              camelize ext [''entity'', rel_name r] @ ''.'' @
                              second_segment propName
                          | None \<Rightarrow> ''entity.'' @ propName);
                       val1 =
                         (case prop of
                            Some p \<Rightarrow>
                              if prop_type p = Boolean then
                                (if val = QStr ''true'' then QStr ''1''
                                 else if val = QStr ''false'' then QStr ''0'' else val)
                              else val
                          | None \<Rightarrow> val)
                   in if operator = WhereOperator_In ext then
                        (case JSON_parse ext (''['' @ qval_toString val1 @ '']'') of
                           None \<Rightarrow> Inl (SyntaxError ''JSON.parse'')
                         | Some parsed \<Rightarrow>
                             Inr (where_clause query
                                    (whereKey @ '' '' @ operator @ '' (:...value)'')
                                    [(''value'', PList parsed)]))
                      else
                        Inr (where_clause query (whereKey @ '' '' @ operator @ '' :value'')
                               [(''value'', PValue val1)]))))"

fun filterQuery_forEach ::
  "externals \<Rightarrow> EntityManifest \<Rightarrow> SelectQueryBuilder \<Rightarrow> (string \<times> qval) list \<Rightarrow>
   error + SelectQueryBuilder" where
  "filterQuery_forEach ext entityManifest query [] = Inr query"
| "filterQuery_forEach ext entityManifest query ((key, val) # rest) =
     (case filterQuery_entry ext entityManifest query key val of
        Inl e \<Rightarrow> Inl e
      | Inr query1 \<Rightarrow> filterQuery_forEach ext entityManifest query1 rest)"

text \<open>\<open>CrudService.filterQuery\<close>. The query parameters are the entries of the object in
  the order \<open>Object.entries\<close> lists them, \<open>None\<close> when the argument is \<open>undefined\<close>.\<close>

definition filterQuery ::
  "externals \<Rightarrow> SelectQueryBuilder \<Rightarrow> (string \<times> qval) list option \<Rightarrow> EntityManifest \<Rightarrow>
   error + SelectQueryBuilder" where
  "filterQuery ext query queryParams entityManifest =
     filterQuery_forEach ext entityManifest query
       (filter (\<lambda>(key, val). key \<notin> set (QUERY_PARAMS_RESERVED_WORDS ext))
          (case queryParams of None \<Rightarrow> [] | Some qp \<Rightarrow> qp))"

subsection \<open>findAll\<close>

text \<open>\<open>queryParams?.key\<close>.\<close>

definition queryParam :: "(string \<times> qval) list option \<Rightarrow> string \<Rightarrow> qval option" where
  "queryParam queryParams key =
     (case queryParams of None \<Rightarrow> None | Some qp \<Rightarrow> map_of qp key)"

text \<open>\<open>queryParams?.relations?.toString().split(',')\<close>.\<close>

definition requestedRelations_of :: "(string \<times> qval) list option \<Rightarrow> string list option" where
  "requestedRelations_of queryParams =
     map_option (\<lambda>v. js_split (qval_toString v) (CHR '','')) (queryParam queryParams ''relations'')"

text \<open>The ordering step of \<open>findAll\<close>.\<close>

definition applyOrdering ::
  "SelectQueryBuilder \<Rightarrow> string \<Rightarrow> EntityManifest \<Rightarrow> (string \<times> qval) list option \<Rightarrow>
   error + SelectQueryBuilder" where
  "applyOrdering query entitySlug entityManifest queryParams =
     (if qval_truthy (queryParam queryParams ''orderBy'') then
        (let orderByText = (case queryParam queryParams ''orderBy'' of
                              None \<Rightarrow> [] | Some v \<Rightarrow> qval_toString v)
         in case find (\<lambda>prop. queryParam queryParams ''orderBy'' = Some (QStr (prop_name prop)) \<and>
                              \<not> prop_hidden prop)
                   (properties entityManifest) of
              None \<Rightarrow>
                Inl (HttpException
                       (Message (''Property '' @ orderByText @ '' does not exist in '' @
                                 entitySlug @ '' and thus cannot be used for ordering''))
                       BAD_REQUEST)
            | Some _ \<Rightarrow>
                Inr (orderBy query (''entity.'' @ orderByText)
                       (if queryParam queryParams ''order'' = Some (QStr ''DESC'') then DESC
                        else ASC)))
      else Inr (orderBy query ''entity.id'' DESC))"

text \<open>
  \<open>CrudService.findAll\<close>. The pagination service is another module; the model
  returns the call that \<open>findAll\<close> makes to it: the query, \<open>currentPage\<close> and
  \<open>resultsPerPage\<close>. The last step reads \<open>queryParams.page\<close> without the optional
  chaining that the earlier steps use.
\<close>

record paginate_call =
  paginate_query :: SelectQueryBuilder
  currentPage :: int
  resultsPerPage :: int

definition findAll ::
  "nat \<Rightarrow> externals \<Rightarrow> string \<Rightarrow> (string \<times> qval) list option \<Rightarrow> bool option \<Rightarrow>
   (error + paginate_call) option" where
  "findAll fuel ext entitySlug queryParams fullVersion =
     (case getEntityManifest ext
             \<lparr>lookup_className = None, lookup_slug = Some entitySlug,
              lookup_fullVersion = fullVersion\<rparr> of
        Inl e \<Rightarrow> Some (Inl e)
      | Inr entityManifest \<Rightarrow>
        (case getEntityMetadata ext (className entityManifest) of
           Inl e \<Rightarrow> Some (Inl e)
         | Inr entityMetadata \<Rightarrow>
           (case getEntityRepository ext (ByMetadata entityMetadata) of
              Inl e \<Rightarrow> Some (Inl e)
            | Inr repo \<Rightarrow>
              (let query = select (createQueryBuilder ''entity'')
                             (getVisibleProps (properties entityManifest) ''entity''
                                (fullVersion = Some True))
               in case loadRelations fuel ext query entityMetadata
                         (relationships entityManifest) (requestedRelations_of queryParams)
                         ''entity'' of
                    None \<Rightarrow> None
                  | Some (Inl e) \<Rightarrow> Some (Inl e)
                  | Some (Inr query1) \<Rightarrow>
                    (case filterQuery ext query1 queryParams entityManifest of
                       Inl e \<Rightarrow> Some (Inl e)
                     | Inr query2 \<Rightarrow>
                       (case applyOrdering query2 entitySlug entityManifest queryParams of
                          Inl e \<Rightarrow> Some (Inl e)
                        | Inr query3 \<Rightarrow>
                          (case queryParams of
                             None \<Rightarrow>
                               Some (Inl (TypeError
                                 ''Cannot read properties of undefined (reading page)''))
                           | Some qp \<Rightarrow>
                               Some (Inr \<lparr>paginate_query = query3,
                                          currentPage = parseInt_or (map_of qp ''page'') 1,
                                          resultsPerPage =
                                            parseInt_or (map_of qp ''perPage'')
                                              (DEFAULT_RESULTS_PER_PAGE ext)\<rparr>))))))))"

text \<open>
  \<open>CrudService.findOne\<close>, up to the query that it runs with \<open>getOne\<close>: the columns are
  selected and the relations loaded as in \<open>findAll\<close>, and the condition is on the id.
\<close>

definition findOne_query ::
  "nat \<Rightarrow> externals \<Rightarrow> string \<Rightarrow> int \<Rightarrow> (string \<times> qval) list option \<Rightarrow> bool option \<Rightarrow>
   (error + SelectQueryBuilder) option" where
  "findOne_query fuel ext entitySlug i queryParams fullVersion =
     (case getEntityManifest ext
             \<lparr>lookup_className = None, lookup_slug = Some entitySlug,
              lookup_fullVersion = fullVersion\<rparr> of
        Inl e \<Rightarrow> Some (Inl e)
      | Inr entityManifest \<Rightarrow>
        (case getEntityMetadata ext (className entityManifest) of
           Inl e \<Rightarrow> Some (Inl e)
         | Inr entityMetadata \<Rightarrow>
           (case getEntityRepository ext (ByMetadata entityMetadata) of
              Inl e \<Rightarrow> Some (Inl e)
            | Inr repo \<Rightarrow>
              (let query = where_clause
                             (select (createQueryBuilder ''entity'')
                                (getVisibleProps (properties entityManifest) ''entity''
                                   (fullVersion = Some True)))
                             ''entity.id = :id'' [(''id'', PNumber i)]
               in loadRelations fuel ext query entityMetadata
                    (relationships entityManifest) (requestedRelations_of queryParams)
                    ''entity''))))"

section \<open>Write path\<close>

text \<open>
  \<open>CrudService.store\<close>. The result is the value returned or the exception thrown,
  together with the database after the call. \<open>store_candidate\<close> is \<open>newItem\<close> as it stands
  when it is validated: the entity created from the DTO, with its password hashed when the
  entity is authenticable and the DTO carries a password.
\<close>

definition store_candidate :: "externals \<Rightarrow> string \<Rightarrow> EntityManifest \<Rightarrow> BaseEntity \<Rightarrow> BaseEntity" where
  "store_candidate ext repo entityManifest itemDto =
     (let newItem = repository_create ext repo itemDto
      in if authenticable entityManifest \<and> js_truthy (map_of itemDto ''password'')
         then js_assign newItem ''password'' (JStr (SHA3 ext (map_of newItem ''password'')))
         else newItem)"

definition store ::
  "externals \<Rightarrow> database \<Rightarrow> string \<Rightarrow> BaseEntity \<Rightarrow> (error + BaseEntity) \<times> database" where
  "store ext db entitySlug itemDto =
     (case getEntityRepository ext (BySlug entitySlug) of
        Inl e \<Rightarrow> (Inl e, db)
      | Inr repo \<Rightarrow>
        (case getEntityManifest ext
                \<lparr>lookup_className = None, lookup_slug = Some entitySlug,
                 lookup_fullVersion = Some True\<rparr> of
           Inl e \<Rightarrow> (Inl e, db)
         | Inr entityManifest \<Rightarrow>
           (case fetchRelationItemsFromDto ext db itemDto
                   (filter (\<lambda>r. rel_type r \<noteq> ManyToMany \<or> owningSide r)
                      (filter (\<lambda>r. rel_type r \<noteq> OneToMany) (relationships entityManifest))) of
              Inl e \<Rightarrow> (Inl e, db)
            | Inr relationItems \<Rightarrow>
              (let newItem = store_candidate ext repo entityManifest itemDto;
                   errors = validate ext newItem entityManifest False
               in if errors \<noteq> [] then (Inl (HttpException (Errors errors) BAD_REQUEST), db)
                  else (case repository_save ext (db repo) (js_spread newItem relationItems) of
                          (res, repo1) \<Rightarrow> (res, db(repo := repo1)))))))"

text \<open>
  \<open>CrudService.delete\<close>. The \<open>forEach\<close> over the one-to-many relationships throws at
  the first relationship whose loaded items have a truthy \<open>length\<close>; reading \<open>length\<close>
  of \<open>undefined\<close> or \<open>null\<close> is a \<open>TypeError\<close>. The test on the length of the list
  around the loop changes nothing: the loop over the empty list does nothing.
\<close>

fun related_items_check :: "BaseEntity \<Rightarrow> RelationshipManifest list \<Rightarrow> error option" where
  "related_items_check item [] = None"
| "related_items_check item (relationship # rest) =
     (case map_of item (rel_name relationship) of
        None \<Rightarrow> Some (TypeError ''Cannot read properties of undefined (reading length)'')
      | Some JNull \<Rightarrow> Some (TypeError ''Cannot read properties of null (reading length)'')
      | Some relatedItems \<Rightarrow>
          if js_truthy (js_length relatedItems) then
            Some (HttpException
                    (Message (''Cannot delete item as it has related '' @ rel_name relationship @
                              ''. Please delete the related items first.''))
                    BAD_REQUEST)
          else related_items_check item rest)"

definition delete ::
  "externals \<Rightarrow> database \<Rightarrow> string \<Rightarrow> int \<Rightarrow> (error + DeleteResult) \<times> database" where
  "delete ext db entitySlug i =
     (case getEntityRepository ext (BySlug entitySlug) of
        Inl e \<Rightarrow> (Inl e, db)
      | Inr repo \<Rightarrow>
        (case getEntityManifest ext
                \<lparr>lookup_className = None, lookup_slug = Some entitySlug,
                 lookup_fullVersion = None\<rparr> of
           Inl e \<Rightarrow> (Inl e, db)
         | Inr entityManifest \<Rightarrow>
           (let oneToManyRelationships =
                  filter (\<lambda>r. rel_type r = OneToMany) (relationships entityManifest)
            in case repository_findOne (db repo) i (map rel_name oneToManyRelationships) of
                 None \<Rightarrow> (Inl (NotFoundException ''Item not found''), db)
               | Some item \<Rightarrow>
                 (case related_items_check item oneToManyRelationships of
                    Some e \<Rightarrow> (Inl e, db)
                  | None \<Rightarrow>
                    (case repository_delete (db repo) i of
                       (res, repo1) \<Rightarrow> (Inr res, db(repo := repo1)))))))"

section \<open>Schema builder\<close>

text \<open>The table \<open>propTypeColumnTypes\<close>.\<close>

fun propTypeColumnTypes :: "PropType \<Rightarrow> string" where
  "propTypeColumnTypes String = ''varchar''"
| "propTypeColumnTypes Number = ''decimal''"
| "propTypeColumnTypes Link = ''varchar''"
| "propTypeColumnTypes Text = ''text''"
| "propTypeColumnTypes RichText = ''text''"
| "propTypeColumnTypes Money = ''decimal''"
| "propTypeColumnTypes Date = ''date''"
| "propTypeColumnTypes Timestamp = ''integer''"
| "propTypeColumnTypes Email = ''varchar''"
| "propTypeColumnTypes Boolean = ''boolean''"
| "propTypeColumnTypes Password = ''varchar''"
| "propTypeColumnTypes Choice = ''simple-enum''"
| "propTypeColumnTypes Location = ''json''"
| "propTypeColumnTypes File = ''varchar''"
| "propTypeColumnTypes Image = ''json''"

text \<open>
  Column options: the three options that \<open>loadEntities\<close> sets, each absent or present,
  and whatever else a base column declares. The base entities, the manifest list and the
  relation options come from other modules and are parameters.
\<close>

record EntitySchemaColumnOptions =
  column_name :: "string option"
  column_type :: "string option"
  nullable :: "bool option"
  other_options :: "(string \<times> json) list"

record Unique =
  unique_columns :: "string list"

record EntitySchema =
  schema_name :: string
  columns :: "(string \<times> EntitySchemaColumnOptions) list"
  schema_relations :: "(string \<times> json) list"
  uniques :: "Unique list"

record loader_externals =
  getEntityManifests :: "EntityManifest list"
  baseEntity :: "(string \<times> EntitySchemaColumnOptions) list"
  baseAuthenticableEntity :: "(string \<times> EntitySchemaColumnOptions) list"
  getEntitySchemaRelationOptions :: "EntityManifest \<Rightarrow> (string \<times> json) list"

text \<open>\<open>EntityLoaderService.loadEntities\<close>: the \<open>reduce\<close> over the properties assigns one
  column per property to the copy of the base columns. Property names are taken to be
  ordinary keys of a JavaScript object.\<close>

definition entitySchema_of :: "loader_externals \<Rightarrow> EntityManifest \<Rightarrow> EntitySchema" where
  "entitySchema_of lx entityManifest =
     \<lparr>schema_name = className entityManifest,
      columns =
        foldl (\<lambda>acc propManifest.
                 js_assign acc (prop_name propManifest)
                   \<lparr>column_name = Some (prop_name propManifest),
                    column_type = Some (propTypeColumnTypes (prop_type propManifest)),
                    nullable = Some True,
                    other_options = []\<rparr>)
          (if authenticable entityManifest then baseAuthenticableEntity lx else baseEntity lx)
          (properties entityManifest),
      schema_relations = getEntitySchemaRelationOptions lx entityManifest,
      uniques = (if authenticable entityManifest then [\<lparr>unique_columns = [''email'']\<rparr>] else [])\<rparr>"

definition loadEntities :: "loader_externals \<Rightarrow> EntitySchema list" where
  "loadEntities lx = map (entitySchema_of lx) (getEntityManifests lx)"

section \<open>Notions used in the properties\<close>

text \<open>The page number as the specification words it: \<open>max(1, parseInt(page) or 1)\<close>.\<close>

definition spec_currentPage :: "qval option \<Rightarrow> int" where
  "spec_currentPage page = max 1 (parseInt_or page 1)"

text \<open>\<open>parseInt(v, 10)\<close> of an optional query-string value, \<open>None\<close> for \<open>NaN\<close>.\<close>

definition parsed_param :: "qval option \<Rightarrow> int option" where
  "parsed_param v = (case v of None \<Rightarrow> None | Some q \<Rightarrow> js_parseInt (qval_toString q))"

text \<open>What \<open>filterQuery\<close> checks of the name left after the suffix is removed: it is the
  name of a property that is not hidden, or its first dot-separated segment is the name of
  a relationship of the entity.\<close>

definition validated_name :: "EntityManifest \<Rightarrow> string \<Rightarrow> bool" where
  "validated_name entityManifest propName =
     ((\<exists>p \<in> set (properties entityManifest). prop_name p = propName \<and> \<not> prop_hidden p) \<or>
      (\<exists>r \<in> set (relationships entityManifest). rel_name r = first_segment propName))"

text \<open>The columns that \<open>getVisibleProps\<close> can produce, for some property list, alias and
  flag.\<close>

definition visible_column :: "string \<Rightarrow> bool" where
  "visible_column c = (\<exists>props a fullVersion. c \<in> set (getVisibleProps props a fullVersion))"

text \<open>No manifest that the manifest service hands out has an eager relationship.\<close>

definition no_eager :: "externals \<Rightarrow> bool" where
  "no_eager ext =
     (\<forall>l m. getEntityManifest ext l = Inr m \<longrightarrow> (\<forall>r \<in> set (relationships m). \<not> eager r))"

definition requested_size :: "string list option \<Rightarrow> nat" where
  "requested_size requestedRelations =
     (case requestedRelations of None \<Rightarrow> 0 | Some rs \<Rightarrow> length rs)"

text \<open>
  The eager relationships form no cycle when the entities can be ranked, by class name, so
  that every eager relationship leads to an entity of lower rank. \<open>eager_below h k\<close> says
  so for one list of relations, the relationship of a relation being looked up by name as
  \<open>loadRelations\<close> does; \<open>eager_ranked ext h H\<close> says so for every entity that the
  collaborators know, with ranks of at most \<open>H\<close>.
\<close>

definition eager_below ::
  "(string \<Rightarrow> nat) \<Rightarrow> nat \<Rightarrow> RelationMetadata list \<Rightarrow> RelationshipManifest list \<Rightarrow> bool" where
  "eager_below h k rms rels =
     (\<forall>rm \<in> set rms. \<forall>r. find (\<lambda>r. rel_name r = propertyName rm) rels = Some r \<and> eager r \<longrightarrow>
        h (inverseTargetName rm) < k)"

definition eager_ranked :: "externals \<Rightarrow> (string \<Rightarrow> nat) \<Rightarrow> nat \<Rightarrow> bool" where
  "eager_ranked ext h H =
     (\<forall>c m md.
        getEntityManifest ext
          \<lparr>lookup_className = Some c, lookup_slug = None, lookup_fullVersion = None\<rparr> = Inr m \<and>
        getEntityMetadata ext c = Inr md \<longrightarrow>
        h c \<le> H \<and> eager_below h (h c) (relations md) (relationships m))"

text \<open>The exception with which \<open>delete\<close> refuses an item that has related items.\<close>

definition blocking_message :: "string \<Rightarrow> error" where
  "blocking_message n =
     HttpException
       (Message (''Cannot delete item as it has related '' @ n @
                 ''. Please delete the related items first.''))
       BAD_REQUEST"

section \<open>A sample application\<close>

text \<open>
  A small application on which the properties below are exercised: cats and their owners,
  and two entities \<open>A\<close> and \<open>B\<close> that refer to each other. The reserved words and the
  operator suffixes are the ones the specification lists, in that order; the alias helper
  joins its arguments in camel case. The sample \<open>JSON.parse\<close> rejects every text: no
  property below depends on the value list of an \<open>in\<close> filter.
\<close>

definition capitalize :: "string \<Rightarrow> string" where
  "capitalize s =
     (case s of
        [] \<Rightarrow> []
      | c # cs \<Rightarrow>
          (case map_of (zip ''abcdefghijklmnopqrstuvwxyz'' ''ABCDEFGHIJKLMNOPQRSTUVWXYZ'') c of
             None \<Rightarrow> c
           | Some u \<Rightarrow> u) # cs)"

definition sample_camelize :: "string list \<Rightarrow> string" where
  "sample_camelize xs = (case xs of [] \<Rightarrow> [] | x # rest \<Rightarrow> x @ concat (map capitalize rest))"

definition cat_manifest :: EntityManifest where
  "cat_manifest =
     \<lparr>className = ''Cat'', slug = ''cats'', mainProp = ''name'',
      properties = [\<lparr>prop_name = ''name'', prop_type = String, prop_hidden = False\<rparr>,
                    \<lparr>prop_name = ''age'', prop_type = Number, prop_hidden = False\<rparr>,
                    \<lparr>prop_name = ''check_in'', prop_type = Date, prop_hidden = False\<rparr>],
      relationships = [\<lparr>rel_name = ''owner'', rel_type = ManyToOne, eager = False,
                         owningSide = False\<rparr>],
      authenticable = False\<rparr>"

definition owner_manifest :: EntityManifest where
  "owner_manifest =
     \<lparr>className = ''Owner'', slug = ''owners'', mainProp = ''name'',
      properties = [\<lparr>prop_name = ''name'', prop_type = String, prop_hidden = False\<rparr>,
                    \<lparr>prop_name = ''email'', prop_type = Email, prop_hidden = False\<rparr>,
                    \<lparr>prop_name = ''password'', prop_type = Password, prop_hidden = False\<rparr>],
      relationships = [\<lparr>rel_name = ''cats'', rel_type = OneToMany, eager = False,
                         owningSide = False\<rparr>],
      authenticable = True\<rparr>"

text \<open>The cyclic pair: \<open>A\<close> has the relation \<open>b\<close> to \<open>B\<close> and \<open>B\<close> has the relation
  \<open>a\<close> to \<open>A\<close>; the flag sets \<open>eager\<close> on both.\<close>

definition a_manifest :: "bool \<Rightarrow> EntityManifest" where
  "a_manifest eagerly =
     \<lparr>className = ''A'', slug = ''as'', mainProp = ''title'',
      properties = [\<lparr>prop_name = ''title'', prop_type = String, prop_hidden = False\<rparr>],
      relationships = [\<lparr>rel_name = ''b'', rel_type = ManyToOne, eager = eagerly,
                         owningSide = False\<rparr>],
      authenticable = False\<rparr>"

definition b_manifest :: "bool \<Rightarrow> EntityManifest" where
  "b_manifest eagerly =
     \<lparr>className = ''B'', slug = ''bs'', mainProp = ''label'',
      properties = [\<lparr>prop_name = ''label'', prop_type = String, prop_hidden = False\<rparr>],
      relationships = [\<lparr>rel_name = ''a'', rel_type = OneToMany, eager = eagerly,
                         owningSide = False\<rparr>],
      authenticable = False\<rparr>"

definition sample_manifests :: "bool \<Rightarrow> EntityManifest list" where
  "sample_manifests eagerly =
     [cat_manifest, owner_manifest, a_manifest eagerly, b_manifest eagerly]"

definition sample_relation_targets :: "(string \<times> (string \<times> string) list) list" where
  "sample_relation_targets =
     [(''Cat'', [(''owner'', ''Owner'')]), (''Owner'', [(''cats'', ''Cat'')]),
      (''A'', [(''b'', ''B'')]), (''B'', [(''a'', ''A'')])]"

definition sample_getEntityManifest :: "bool \<Rightarrow> manifest_lookup \<Rightarrow> error + EntityManifest" where
  "sample_getEntityManifest eagerly l =
     (case find (\<lambda>m. case lookup_className l of
                        Some c \<Rightarrow> className m = c
                      | None \<Rightarrow> lookup_slug l = Some (slug m))
             (sample_manifests eagerly) of
        None \<Rightarrow> Inl (NotFoundException ''Entity not found'')
      | Some m \<Rightarrow> Inr m)"

definition sample_getEntityMetadata :: "string \<Rightarrow> error + EntityMetadata" where
  "sample_getEntityMetadata c =
     (case map_of sample_relation_targets c of
        None \<Rightarrow> Inl (NotFoundException ''Entity not found'')
      | Some rs \<Rightarrow>
          Inr \<lparr>targetName = c,
               relations = map (\<lambda>(n, t). \<lparr>propertyName = n, inverseTargetName = t\<rparr>) rs\<rparr>)"

text \<open>
  Modelled from the spec: the enumeration \<open>WhereKeySuffix\<close> and the record
  \<open>whereOperatorKeySuffix\<close> of \<open>@repo/types\<close> are not part of the sources. The suffixes
  are the ones the specification lists, in its order; the operators paired with them are
  the comparison operators of the client's \<open>where\<close> clauses.
\<close>

definition sample_operators :: "(string \<times> string) list" where
  "sample_operators =
     [(''_eq'', ''=''), (''_gt'', ''>''), (''_gte'', ''>=''), (''_lt'', ''<''),
      (''_lte'', ''<=''), (''_ne'', ''!=''), (''_like'', ''like''), (''_in'', ''in'')]"

definition sample_validate :: "BaseEntity \<Rightarrow> EntityManifest \<Rightarrow> bool \<Rightarrow> ValidationError list" where
  "sample_validate item entityManifest isUpdate =
     (if js_truthy (map_of item ''name'') then []
      else [ValidationError ''name'' [(''isNotEmpty'', ''name should not be empty'')] []])"

definition sample_save :: "Repository \<Rightarrow> BaseEntity \<Rightarrow> (error + BaseEntity) \<times> Repository" where
  "sample_save repo item =
     (let saved = js_assign item ''id'' (JNum 1)
      in (Inr saved, repo\<lparr>rows := (rows repo)(1 \<mapsto> saved)\<rparr>))"

text \<open>
  Modelled from the spec: the constant \<open>QUERY_PARAMS_RESERVED_WORDS\<close> is not part of the
  sources; the specification lists the reserved words \<open>page\<close>, \<open>perPage\<close>, \<open>orderBy\<close>,
  \<open>order\<close> and \<open>relations\<close>.
\<close>

definition sample_reserved_words :: "string list" where
  "sample_reserved_words = [''page'', ''perPage'', ''orderBy'', ''order'', ''relations'']"

definition sample_app :: "bool \<Rightarrow> externals" where
  "sample_app eagerly =
     \<lparr>getEntityManifest = sample_getEntityManifest eagerly,
      getEntityMetadata = sample_getEntityMetadata,
      getEntityRepository =
        (\<lambda>l. case l of BySlug s \<Rightarrow> Inr s | ByMetadata m \<Rightarrow> Inr (targetName m)),
      camelize = sample_camelize,
      QUERY_PARAMS_RESERVED_WORDS = sample_reserved_words,
      DEFAULT_RESULTS_PER_PAGE = 20,
      WhereKeySuffix_values = map fst sample_operators,
      operatorOfSuffix =
        (\<lambda>s. case map_of sample_operators s of None \<Rightarrow> ''undefined'' | Some operator \<Rightarrow> operator),
      WhereOperator_In = ''in'',
      JSON_parse = (\<lambda>s. None),
      repository_create = (\<lambda>repo dto. dto),
      fetchRelationItemsFromDto = (\<lambda>db dto rels. Inr []),
      SHA3 = (\<lambda>v. ''digest''),
      validate = sample_validate,
      repository_save = sample_save\<rparr>"

abbreviation sample :: externals where
  "sample \<equiv> sample_app False"

text \<open>A variant in which the owner of a cat is loaded eagerly, and nothing else is: an
  eager relationship that lies on no cycle.\<close>

definition eager_cat_manifest :: EntityManifest where
  "eager_cat_manifest =
     cat_manifest\<lparr>relationships :=
       [\<lparr>rel_name = ''owner'', rel_type = ManyToOne, eager = True, owningSide = False\<rparr>]\<rparr>"

definition eager_owner_app :: externals where
  "eager_owner_app =
     sample\<lparr>getEntityManifest :=
       (\<lambda>l. case find (\<lambda>m. case lookup_className l of
                              Some c \<Rightarrow> className m = c
                            | None \<Rightarrow> lookup_slug l = Some (slug m))
                    [eager_cat_manifest, owner_manifest] of
               None \<Rightarrow> Inl (NotFoundException ''Entity not found'')
             | Some m \<Rightarrow> Inr m)\<rparr>"

text \<open>A database in which owner 1 has one cat and owner 2 has none.\<close>

definition sample_db :: database where
  "sample_db repo =
     (if repo = ''owners'' then
        \<lparr>rows = [1 \<mapsto> [(''id'', JNum 1), (''name'', JStr ''Ann'')],
                 2 \<mapsto> [(''id'', JNum 2), (''name'', JStr ''Bob'')]],
         related = (\<lambda>i n. if i = 1 \<and> n = ''cats''
                           then [[(''id'', JNum 7), (''name'', JStr ''Tom'')]] else [])\<rparr>
      else \<lparr>rows = Map.empty, related = (\<lambda>i n. [])\<rparr>)"

definition sample_loader :: loader_externals where
  "sample_loader =
     \<lparr>getEntityManifests = sample_manifests False,
      baseEntity =
        [(''id'', \<lparr>column_name = None, column_type = Some ''integer'', nullable = None,
                   other_options = [(''primary'', JBool True), (''generated'', JBool True)]\<rparr>)],
      baseAuthenticableEntity =
        [(''id'', \<lparr>column_name = None, column_type = Some ''integer'', nullable = None,
                   other_options = [(''primary'', JBool True), (''generated'', JBool True)]\<rparr>),
         (''email'', \<lparr>column_name = None, column_type = Some ''varchar'', nullable = None,
                      other_options = []\<rparr>),
         (''password'', \<lparr>column_name = None, column_type = Some ''varchar'', nullable = None,
                         other_options = [(''select'', JBool False)]\<rparr>)],
      getEntitySchemaRelationOptions = (\<lambda>m. [])\<rparr>"

section \<open>Properties\<close>

subsection \<open>Auxiliary facts\<close>

lemma find_SomeD: "find P xs = Some x \<Longrightarrow> P x \<and> x \<in> set xs"
  by (induction xs) (auto split: if_splits)

lemma find_append_cases:
  "find P (xs @ ys) = (case find P xs of None \<Rightarrow> find P ys | Some x \<Rightarrow> Some x)"
  by (induction xs) auto

lemma map_of_overwrite_other:
  "x \<noteq> k \<Longrightarrow> map_of (map (\<lambda>(k', w). if k' = k then (k', v) else (k', w)) obj) x = map_of obj x"
  by (induction obj) auto

lemma map_of_overwrite_same:
  "k \<in> fst ` set obj \<Longrightarrow>
   map_of (map (\<lambda>(k', w). if k' = k then (k', v) else (k', w)) obj) k = Some v"
  by (induction obj) auto

lemma map_of_js_assign: "map_of (js_assign obj k v) = (map_of obj)(k \<mapsto> v)"
proof (rule ext)
  fix x
  show "map_of (js_assign obj k v) x = ((map_of obj)(k \<mapsto> v)) x"
  proof (cases "k \<in> fst ` set obj")
    case True
    then show ?thesis
      by (cases "x = k") (simp_all add: js_assign_def map_of_overwrite_other map_of_overwrite_same)
  next
    case False
    then have "map_of obj k = None" by (simp add: map_of_eq_None_iff)
    with False show ?thesis
      by (simp add: js_assign_def map_add_def split: option.splits)
  qed
qed

lemma sample_no_eager: "no_eager sample"
proof -
  have "m \<in> set (sample_manifests False)" if "sample_getEntityManifest False l = Inr m" for l m
    using that find_SomeD[of _ "sample_manifests False" m]
    by (auto simp: sample_getEntityManifest_def split: option.splits)
  then show ?thesis
    by (fastforce simp: no_eager_def sample_app_def sample_manifests_def cat_manifest_def
          owner_manifest_def a_manifest_def b_manifest_def)
qed

lemma sample_owner_lookup:
  "getEntityRepository sample (BySlug ''owners'') = Inr ''owners''"
  "getEntityManifest sample \<lparr>lookup_className = None, lookup_slug = Some ''owners'',
                             lookup_fullVersion = fv\<rparr> = Inr owner_manifest"
  by (simp_all add: sample_app_def sample_getEntityManifest_def sample_manifests_def
        cat_manifest_def owner_manifest_def)

lemma sample_cat_lookup:
  "getEntityRepository sample (BySlug ''cats'') = Inr ''cats''"
  "getEntityManifest sample \<lparr>lookup_className = None, lookup_slug = Some ''cats'',
                             lookup_fullVersion = fv\<rparr> = Inr cat_manifest"
  by (simp_all add: sample_app_def sample_getEntityManifest_def sample_manifests_def
        cat_manifest_def)

subsection \<open>Filters are not conjoined\<close>

text \<open>
  Every accepted filter entry calls \<open>where\<close>, which sets the condition of the query, and
  every entry binds the same parameter name \<open>value\<close>. So a query that went through
  \<open>filterQuery\<close> with at least one filter carries exactly one condition, the one of the
  last filter.
\<close>

lemma filterQuery_entry_one_condition:
  "filterQuery_entry ext em query key v = Inr query1 \<Longrightarrow> length (wheres query1) = 1"
  by (auto simp: filterQuery_entry_def where_clause_def Let_def
        split: option.splits if_splits)

lemma filterQuery_forEach_one_condition:
  "filterQuery_forEach ext em query entries = Inr query1 \<Longrightarrow> entries \<noteq> [] \<Longrightarrow>
   length (wheres query1) = 1"
proof (induction entries arbitrary: query)
  case Nil
  then show ?case by simp
next
  case (Cons e entries)
  obtain k w where e: "e = (k, w)" by (cases e)
  from Cons.prems(1) e obtain q where
    q: "filterQuery_entry ext em query k w = Inr q"
       "filterQuery_forEach ext em q entries = Inr query1"
    by (auto split: sum.splits)
  show ?case
  proof (cases "entries = []")
    case True
    with q filterQuery_entry_one_condition show ?thesis by auto
  next
    case False
    from Cons.IH[OF q(2) False] show ?thesis .
  qed
qed

text \<open>
  C1. The request \<open>GET /collections/cats?age_gte=2&age_lt=5\<close>: two filters with valid
  operator suffixes on an existing, visible property. The query that \<open>findAll\<close> hands to
  pagination has the single condition \<open>entity.age < :value\<close> with \<open>value\<close> bound to \<open>5\<close>:
  the condition \<open>age >= 2\<close> is gone, so the result is not constrained by the conjunction
  of both filters. The same holds for filters on two different properties
  (\<open>name_like\<close> and \<open>age_lt\<close>).
\<close>

theorem findAll_second_filter_replaces_first:
  "map_option (map_sum id (\<lambda>c. (wheres (paginate_query c),
                                 parameters (paginate_query c) ''value'')))
     (findAll 0 sample ''cats'' (Some [(''age_gte'', QStr ''2''), (''age_lt'', QStr ''5'')])
        None)
   = Some (Inr ([''entity.age < :value''], Some (PValue (QStr ''5'')))) \<and>
   map_option (map_sum id (\<lambda>c. (wheres (paginate_query c),
                                 parameters (paginate_query c) ''value'')))
     (findAll 0 sample ''cats'' (Some [(''name_like'', QStr ''T%''), (''age_lt'', QStr ''5'')])
        None)
   = Some (Inr ([''entity.age < :value''], Some (PValue (QStr ''5''))))"
  by code_simp

subsection \<open>Relation loading\<close>

lemma prune_requested_smaller:
  assumes "requested_includes req n"
  shows "requested_size (prune_requested req n) < requested_size req"
proof -
  from assms obtain rs where rs: "req = Some rs" "n \<in> set rs"
    by (auto simp: requested_includes_def split: option.splits)
  then have "length (filter (\<lambda>r. r \<noteq> n) rs) < length rs"
    by (simp add: length_filter_less)
  with rs show ?thesis by (simp add: prune_requested_def requested_size_def)
qed

text \<open>
  Without eager relationships a relation is followed only when its name is in the
  requested list, and the list handed down is shorter by at least that name. Fuel equal
  to the length of the list is therefore enough at every level.
\<close>

lemma loadRelations_forEach_returns:
  "no_eager ext \<Longrightarrow> (\<forall>r \<in> set rels. \<not> eager r) \<Longrightarrow> requested_size req \<le> fuel \<Longrightarrow>
   loadRelations_forEach fuel ext query rms rels req a \<noteq> None"
proof (induction fuel ext query rms rels req a rule: loadRelations_forEach.induct)
  case (1 fuel ext query rels requestedRelations a)
  then show ?case by simp
next
  case (2 fuel ext query rm rest rels req a)
  note ne = "2.prems"(1) and nr = "2.prems"(2) and sz = "2.prems"(3)
  show ?case
  proof (cases "find (\<lambda>r. rel_name r = propertyName rm) rels")
    case None
    then show ?thesis by simp
  next
    case (Some rsm)
    from find_SomeD[OF Some] nr have noteager: "\<not> eager rsm" by auto
    show ?thesis
    proof (cases "requested_includes req (propertyName rm)")
      case False
      with noteager have skip: "\<not> eager rsm \<and> \<not> requested_includes req (propertyName rm)"
        by simp
      from "2.IH"(1)[OF Some skip ne nr sz] Some skip show ?thesis by simp
    next
      case req_in: True
      then have cond: "\<not> (\<not> eager rsm \<and> \<not> requested_includes req (propertyName rm))"
        by simp
      from prune_requested_smaller[OF req_in] sz obtain n where
        fuel: "fuel = Suc n" and
        sz': "requested_size (prune_requested req (propertyName rm)) \<le> n"
        by (cases fuel) auto
      let ?aliasName = "camelize ext [a, propertyName rm]"
      let ?query1 = "leftJoin query (a @ ''.'' @ propertyName rm) ?aliasName"
      show ?thesis
      proof (cases "getEntityManifest ext \<lparr>lookup_className = Some (inverseTargetName rm),
                        lookup_slug = None, lookup_fullVersion = None\<rparr>")
        case (Inl e)
        with Some req_in show ?thesis by (simp add: Let_def)
      next
        case man: (Inr rem)
        from ne man have remne: "\<forall>r \<in> set (relationships rem). \<not> eager r"
          unfolding no_eager_def by blast
        let ?query2 = "addSelect ?query1 (getVisibleProps (properties rem) ?aliasName False)"
        show ?thesis
        proof (cases "getEntityMetadata ext (inverseTargetName rm)")
          case (Inl e)
          with Some req_in man show ?thesis by (simp add: Let_def)
        next
          case md: (Inr remd)
          show ?thesis
          proof (cases "relations remd = []")
            case True
            then have nn: "\<not> relations remd \<noteq> []" by simp
            from "2.IH"(4)[OF Some cond refl refl man refl md nn ne nr sz]
            show ?thesis using Some req_in man md True by (simp add: Let_def)
          next
            case False
            from "2.IH"(2)[OF Some cond refl refl man refl md False fuel ne remne sz']
            obtain res where nested:
              "loadRelations_forEach n ext ?query2 (relations remd) (relationships rem)
                 (prune_requested req (propertyName rm)) ?aliasName = Some res"
              by auto
            show ?thesis
            proof (cases res)
              case (Inl e)
              with nested Some req_in man md False fuel show ?thesis by (simp add: Let_def)
            next
              case (Inr query3)
              from "2.IH"(3)[OF Some cond refl refl man refl md False fuel nested Inr ne nr sz]
              show ?thesis
                using nested Inr Some req_in man md False fuel by (simp add: Let_def)
            qed
          qed
        qed
      qed
    qed
  qed
qed

text \<open>
  For every entity graph, cyclic or not, in which no relationship is eager, for every
  requested-relations list (or none) and every query and alias, \<open>loadRelations\<close> returns,
  with a query or an exception, as soon as the fuel is at least the length of the
  requested list: the nesting depth of its calls is bounded by that length.
\<close>

theorem loadRelations_returns_without_eager:
  assumes "no_eager ext" and "\<forall>r \<in> set rels. \<not> eager r" and "requested_size req \<le> fuel"
  shows "\<exists>res. loadRelations fuel ext query entityMetadata rels req a = Some res"
  using loadRelations_forEach_returns[OF assms] by (simp add: loadRelations_def)

text \<open>
  On the cyclic pair \<open>A\<close>, \<open>B\<close> of the sample application the theorem applies to the
  request \<open>relations=b,b.a\<close>, and the query built for it joins \<open>b\<close> under the entity and
  one level of \<open>a\<close> under \<open>b\<close>, and nothing below.
\<close>

theorem loadRelations_returns_without_eager_witness:
  "(\<exists>res. loadRelations 2 sample (createQueryBuilder ''entity'')
            \<lparr>targetName = ''A'',
             relations = [\<lparr>propertyName = ''b'', inverseTargetName = ''B''\<rparr>]\<rparr>
            (relationships (a_manifest False)) (Some [''b'', ''b.a'']) ''entity'' = Some res) \<and>
   map_option (map_sum id (\<lambda>c. (joins (paginate_query c), selects (paginate_query c))))
     (findAll 2 sample ''as'' (Some [(''relations'', QStr ''b,b.a'')]) None) =
     Some (Inr ([(''entity.b'', ''entityB''), (''entityB.a'', ''entityBA'')],
                [''entity.id'', ''entity.title'', ''entityB.id'', ''entityB.label'',
                 ''entityBA.id'', ''entityBA.title'']))"
proof -
  have "\<forall>r \<in> set (relationships (a_manifest False)). \<not> eager r"
    by (simp add: a_manifest_def)
  moreover have "requested_size (Some [''b'', ''b.a'']) \<le> 2"
    by (simp add: requested_size_def)
  ultimately have "\<exists>res. loadRelations 2 sample (createQueryBuilder ''entity'')
            \<lparr>targetName = ''A'',
             relations = [\<lparr>propertyName = ''b'', inverseTargetName = ''B''\<rparr>]\<rparr>
            (relationships (a_manifest False)) (Some [''b'', ''b.a'']) ''entity'' = Some res"
    by (rule loadRelations_returns_without_eager[OF sample_no_eager])
  moreover have
    "map_option (map_sum id (\<lambda>c. (joins (paginate_query c), selects (paginate_query c))))
       (findAll 2 sample ''as'' (Some [(''relations'', QStr ''b,b.a'')]) None) =
     Some (Inr ([(''entity.b'', ''entityB''), (''entityB.a'', ''entityBA'')],
                [''entity.id'', ''entity.title'', ''entityB.id'', ''entityB.label'',
                 ''entityBA.id'', ''entityBA.title'']))"
    by code_simp
  ultimately show ?thesis by (rule conjI)
qed

text \<open>
  The request \<open>relations=b.a\<close> alone loads nothing: a relation is joined only when its own
  name is an element of the requested list, and \<open>b.a\<close> is not \<open>b\<close>. On the cyclic pair
  the query is built without any join; it takes \<open>relations=b,b.a\<close>, as above, to hydrate
  \<open>a\<close> under \<open>b\<close>.
\<close>

theorem findAll_dotted_path_alone_loads_nothing:
  "map_option (map_sum id (\<lambda>c. joins (paginate_query c)))
     (findAll 5 sample ''as'' (Some [(''relations'', QStr ''b.a'')]) None) = Some (Inr [])"
  by code_simp

lemma prune_requested_not_larger:
  "requested_size (prune_requested req n) \<le> requested_size req"
  by (cases req) (simp_all add: prune_requested_def requested_size_def)

lemma follow_fuel:
  assumes "requested_size req * Suc H + k \<le> fuel"
      and "ht \<le> H"
      and "requested_includes req n \<or> ht < k"
  shows "\<exists>m. fuel = Suc m \<and> requested_size (prune_requested req n) * Suc H + ht \<le> m"
proof (cases "requested_includes req n")
  case True
  from prune_requested_smaller[OF True]
  have "Suc (requested_size (prune_requested req n)) \<le> requested_size req" by simp
  then have "Suc (requested_size (prune_requested req n)) * Suc H \<le> requested_size req * Suc H"
    by (rule mult_le_mono1)
  with assms(1,2) show ?thesis by (cases fuel) auto
next
  case False
  with assms(3) have lt: "ht < k" by simp
  have "requested_size (prune_requested req n) * Suc H \<le> requested_size req * Suc H"
    by (rule mult_le_mono1) (rule prune_requested_not_larger)
  with assms(1) lt show ?thesis by (cases fuel) auto
qed

lemma eager_below_rest: "eager_below h k (rm # rest) rels \<Longrightarrow> eager_below h k rest rels"
  by (simp add: eager_below_def)

lemma loadRelations_forEach_returns_ranked:
  "eager_ranked ext h H \<Longrightarrow> eager_below h k rms rels \<Longrightarrow>
   requested_size req * Suc H + k \<le> fuel \<Longrightarrow>
   loadRelations_forEach fuel ext query rms rels req a \<noteq> None"
proof (induction fuel ext query rms rels req a arbitrary: k rule: loadRelations_forEach.induct)
  case (1 fuel ext query rels requestedRelations a)
  then show ?case by simp
next
  case (2 fuel ext query rm rest rels req a)
  note rk = "2.prems"(1) and eb = "2.prems"(2) and sz = "2.prems"(3)
  note ebr = eager_below_rest[OF eb]
  show ?case
  proof (cases "find (\<lambda>r. rel_name r = propertyName rm) rels")
    case None
    then show ?thesis by simp
  next
    case (Some rsm)
    show ?thesis
    proof (cases "\<not> eager rsm \<and> \<not> requested_includes req (propertyName rm)")
      case True
      from "2.IH"(1)[OF Some True rk ebr sz] Some True show ?thesis by simp
    next
      case cond: False
      let ?aliasName = "camelize ext [a, propertyName rm]"
      let ?query1 = "leftJoin query (a @ ''.'' @ propertyName rm) ?aliasName"
      show ?thesis
      proof (cases "getEntityManifest ext \<lparr>lookup_className = Some (inverseTargetName rm),
                        lookup_slug = None, lookup_fullVersion = None\<rparr>")
        case (Inl e)
        with Some cond show ?thesis by (auto simp: Let_def)
      next
        case man: (Inr rem)
        let ?query2 = "addSelect ?query1 (getVisibleProps (properties rem) ?aliasName False)"
        show ?thesis
        proof (cases "getEntityMetadata ext (inverseTargetName rm)")
          case (Inl e)
          with Some cond man show ?thesis by (auto simp: Let_def)
        next
          case md: (Inr remd)
          from rk man md have hH: "h (inverseTargetName rm) \<le> H"
            and ebn: "eager_below h (h (inverseTargetName rm)) (relations remd) (relationships rem)"
            unfolding eager_ranked_def by blast+
          show ?thesis
          proof (cases "relations remd = []")
            case True
            then have nn: "\<not> relations remd \<noteq> []" by simp
            from "2.IH"(4)[OF Some cond refl refl man refl md nn rk ebr sz]
            show ?thesis using Some cond man md True by (auto simp: Let_def)
          next
            case False
            have "requested_includes req (propertyName rm) \<or> h (inverseTargetName rm) < k"
            proof (cases "requested_includes req (propertyName rm)")
              case True
              then show ?thesis by simp
            next
              case False
              with cond have "eager rsm" by simp
              with eb Some have "h (inverseTargetName rm) < k"
                by (simp add: eager_below_def)
              then show ?thesis by simp
            qed
            from follow_fuel[OF sz hH this] obtain n where
              fuel: "fuel = Suc n" and
              sz': "requested_size (prune_requested req (propertyName rm)) * Suc H +
                      h (inverseTargetName rm) \<le> n"
              by blast
            from "2.IH"(2)[OF Some cond refl refl man refl md False fuel rk ebn sz']
            obtain res where nested:
              "loadRelations_forEach n ext ?query2 (relations remd) (relationships rem)
                 (prune_requested req (propertyName rm)) ?aliasName = Some res"
              by auto
            show ?thesis
            proof (cases res)
              case (Inl e)
              with nested Some cond man md False fuel show ?thesis by (auto simp: Let_def)
            next
              case (Inr query3)
              from "2.IH"(3)[OF Some cond refl refl man refl md False fuel nested Inr rk ebr sz]
              show ?thesis
                using nested Inr Some cond man md False fuel by (auto simp: Let_def)
            qed
          qed
        qed
      qed
    qed
  qed
qed

text \<open>
  The same holds with eager relationships, as long as they form no cycle: when the
  entities are ranked so that every eager relationship leads to a lower rank, and the
  ranks are at most \<open>H\<close>, \<open>loadRelations\<close> returns for every requested list as soon as
  the fuel is at least the length of the list times \<open>H + 1\<close>, plus the rank of the
  entity it starts from.
\<close>

theorem loadRelations_returns_without_eager_cycle:
  assumes "eager_ranked ext h H" and "eager_below h k (relations entityMetadata) rels"
      and "requested_size req * Suc H + k \<le> fuel"
  shows "\<exists>res. loadRelations fuel ext query entityMetadata rels req a = Some res"
  using loadRelations_forEach_returns_ranked[OF assms] by (simp add: loadRelations_def)

text \<open>With the owner of a cat loaded eagerly, the cats are listed with their owner
  joined, without any request for it.\<close>

lemma eager_owner_ranked: "eager_ranked eager_owner_app (\<lambda>c. if c = ''Cat'' then 1 else 0) 1"
proof -
  have "m = eager_cat_manifest \<or> m = owner_manifest"
    if "getEntityManifest eager_owner_app l = Inr m" for l m
    using that find_SomeD[of _ "[eager_cat_manifest, owner_manifest]" m]
    by (auto simp: eager_owner_app_def split: option.splits)
  moreover have "className m = c"
    if "getEntityManifest eager_owner_app
          \<lparr>lookup_className = Some c, lookup_slug = None, lookup_fullVersion = None\<rparr> = Inr m" for c m
    using that by (auto simp: eager_owner_app_def split: if_splits)
  moreover have "getEntityMetadata eager_owner_app = sample_getEntityMetadata"
    by (simp add: eager_owner_app_def sample_app_def)
  ultimately show ?thesis
    unfolding eager_ranked_def eager_below_def
    by (fastforce simp: eager_cat_manifest_def cat_manifest_def owner_manifest_def
          sample_getEntityMetadata_def sample_relation_targets_def)
qed

theorem eager_relation_without_cycle_is_loaded:
  "(\<exists>res. loadRelations 1 eager_owner_app (createQueryBuilder ''entity'')
            \<lparr>targetName = ''Cat'',
             relations = [\<lparr>propertyName = ''owner'', inverseTargetName = ''Owner''\<rparr>]\<rparr>
            (relationships eager_cat_manifest) None ''entity'' = Some res) \<and>
   map_option (map_sum id (\<lambda>c. joins (paginate_query c)))
     (findAll 1 eager_owner_app ''cats'' (Some []) None) =
     Some (Inr [(''entity.owner'', ''entityOwner'')])"
proof -
  have "eager_below (\<lambda>c. if c = ''Cat'' then 1 else 0) 1
          (relations \<lparr>targetName = ''Cat'',
             relations = [\<lparr>propertyName = ''owner'', inverseTargetName = ''Owner''\<rparr>]\<rparr>)
          (relationships eager_cat_manifest)"
    by (simp add: eager_below_def)
  moreover have "requested_size None * Suc 1 + 1 \<le> 1"
    by (simp add: requested_size_def)
  ultimately have "\<exists>res. loadRelations 1 eager_owner_app (createQueryBuilder ''entity'')
            \<lparr>targetName = ''Cat'',
             relations = [\<lparr>propertyName = ''owner'', inverseTargetName = ''Owner''\<rparr>]\<rparr>
            (relationships eager_cat_manifest) None ''entity'' = Some res"
    by (rule loadRelations_returns_without_eager_cycle[OF eager_owner_ranked])
  moreover have "map_option (map_sum id (\<lambda>c. joins (paginate_query c)))
     (findAll 1 eager_owner_app ''cats'' (Some []) None) =
     Some (Inr [(''entity.owner'', ''entityOwner'')])"
    by code_simp
  ultimately show ?thesis by (rule conjI)
qed

text \<open>
  With eager relationships on both sides of a cycle the pruning of the requested list does
  not help, since an eager relation is followed whether it is requested or not.
\<close>

lemma eager_cycle_exhausts_fuel:
  "loadRelations_forEach n (sample_app True) q
     [\<lparr>propertyName = ''b'', inverseTargetName = ''B''\<rparr>]
     (relationships (a_manifest True)) req a = None \<and>
   loadRelations_forEach n (sample_app True) q
     [\<lparr>propertyName = ''a'', inverseTargetName = ''A''\<rparr>]
     (relationships (b_manifest True)) req a = None"
proof (induction n arbitrary: q req a)
  case 0
  show ?case
    by (simp add: sample_app_def sample_getEntityManifest_def sample_manifests_def
          cat_manifest_def owner_manifest_def a_manifest_def b_manifest_def
          sample_getEntityMetadata_def sample_relation_targets_def Let_def)
next
  case (Suc n)
  have a: "relationships (a_manifest True) =
      [\<lparr>rel_name = ''b'', rel_type = ManyToOne, eager = True, owningSide = False\<rparr>]"
   and b: "relationships (b_manifest True) =
      [\<lparr>rel_name = ''a'', rel_type = OneToMany, eager = True, owningSide = False\<rparr>]"
    by (simp_all add: a_manifest_def b_manifest_def)
  from Suc[unfolded a b] show ?case
    by (simp add: sample_app_def sample_getEntityManifest_def sample_manifests_def
          cat_manifest_def owner_manifest_def a_manifest_def b_manifest_def
          sample_getEntityMetadata_def sample_relation_targets_def Let_def)
qed

lemma eager_sample_lookups:
  "getEntityManifest (sample_app True)
     \<lparr>lookup_className = None, lookup_slug = Some ''as'', lookup_fullVersion = fv\<rparr> =
     Inr (a_manifest True)"
  "getEntityMetadata (sample_app True) ''A'' =
     Inr \<lparr>targetName = ''A'',
          relations = [\<lparr>propertyName = ''b'', inverseTargetName = ''B''\<rparr>]\<rparr>"
  "className (a_manifest True) = ''A''"
  by (simp_all add: sample_app_def sample_getEntityManifest_def sample_manifests_def
        cat_manifest_def owner_manifest_def a_manifest_def b_manifest_def
        sample_getEntityMetadata_def sample_relation_targets_def)

text \<open>
  C2. The cyclic pair with \<open>eager\<close> set on both sides: \<open>A\<close> has the eager relation \<open>b\<close>
  to \<open>B\<close> and \<open>B\<close> has the eager relation \<open>a\<close> to \<open>A\<close>. Whatever the fuel, the query,
  the requested-relations list and the alias, \<open>loadRelations\<close> on \<open>A\<close> does not return,
  and neither does \<open>findAll\<close> on \<open>A\<close>, whatever the query parameters and the flag: the
  calls nest without end, where the claim has the procedure terminate for every
  combination of eager flags.
\<close>

theorem loadRelations_eager_cycle_never_returns:
  "loadRelations n (sample_app True) query
     \<lparr>targetName = ''A'',
      relations = [\<lparr>propertyName = ''b'', inverseTargetName = ''B''\<rparr>]\<rparr>
     (relationships (a_manifest True)) requestedRelations a = None \<and>
   findAll n (sample_app True) ''as'' queryParams fullVersion = None"
proof -
  have "getEntityRepository (sample_app True) (ByMetadata m) = Inr (targetName m)" for m
    by (simp add: sample_app_def)
  then show ?thesis
    by (simp add: findAll_def loadRelations_def eager_sample_lookups
          eager_cycle_exhausts_fuel[THEN conjunct1] del: loadRelations_forEach.simps)
qed

subsection \<open>Selected columns\<close>

text \<open>Every column that a read query selects was produced by \<open>getVisibleProps\<close>, for the
  entity or for a joined relation; filtering and ordering leave the selection alone.\<close>

lemma getVisibleProps_visible: "c \<in> set (getVisibleProps props a fv) \<Longrightarrow> visible_column c"
  unfolding visible_column_def by blast

lemma loadRelations_forEach_selects:
  "loadRelations_forEach fuel ext query rms rels req a = Some (Inr query1) \<Longrightarrow>
   (\<forall>c \<in> set (selects query). visible_column c) \<Longrightarrow>
   (\<forall>c \<in> set (selects query1). visible_column c)"
proof (induction fuel ext query rms rels req a arbitrary: query1
       rule: loadRelations_forEach.induct)
  case (1 fuel ext query rels requestedRelations a)
  then show ?case by simp
next
  case (2 fuel ext query rm rest rels req a)
  note run = "2.prems"(1) and inv = "2.prems"(2)
  from run obtain rsm where Some: "find (\<lambda>r. rel_name r = propertyName rm) rels = Some rsm"
    by (auto split: option.splits)
  show ?case
  proof (cases "\<not> eager rsm \<and> \<not> requested_includes req (propertyName rm)")
    case True
    with run Some have "loadRelations_forEach fuel ext query rest rels req a = Some (Inr query1)"
      by simp
    from "2.IH"(1)[OF Some True this inv] show ?thesis .
  next
    case False
    let ?aliasName = "camelize ext [a, propertyName rm]"
    let ?query1 = "leftJoin query (a @ ''.'' @ propertyName rm) ?aliasName"
    from run Some False obtain rem where
      man: "getEntityManifest ext \<lparr>lookup_className = Some (inverseTargetName rm),
              lookup_slug = None, lookup_fullVersion = None\<rparr> = Inr rem"
      by (auto simp: Let_def split: sum.splits)
    let ?query2 = "addSelect ?query1 (getVisibleProps (properties rem) ?aliasName False)"
    have inv2: "\<forall>c \<in> set (selects ?query2). visible_column c"
      using inv by (auto simp: addSelect_def leftJoin_def intro: getVisibleProps_visible)
    from run Some False man obtain remd where
      md: "getEntityMetadata ext (inverseTargetName rm) = Inr remd"
      by (auto simp: Let_def split: sum.splits)
    show ?thesis
    proof (cases "relations remd = []")
      case True
      then have nn: "\<not> relations remd \<noteq> []" by simp
      from run Some False man md True
      have "loadRelations_forEach fuel ext ?query2 rest rels req a = Some (Inr query1)"
        by (simp add: Let_def)
      from "2.IH"(4)[OF Some False refl refl man refl md nn this inv2] show ?thesis .
    next
      case ne: False
      from run Some False man md ne obtain n query3 where
        fuel: "fuel = Suc n" and
        nested: "loadRelations_forEach n ext ?query2 (relations remd) (relationships rem)
                   (prune_requested req (propertyName rm)) ?aliasName = Some (Inr query3)" and
        rest: "loadRelations_forEach fuel ext query3 rest rels req a = Some (Inr query1)"
        by (auto simp: Let_def split: nat.splits option.splits sum.splits)
      from "2.IH"(2)[OF Some False refl refl man refl md ne fuel nested inv2]
      have inv3: "\<forall>c \<in> set (selects query3). visible_column c" .
      from "2.IH"(3)[OF Some False refl refl man refl md ne fuel nested refl rest inv3]
      show ?thesis .
    qed
  qed
qed

lemma filterQuery_entry_selects:
  "filterQuery_entry ext em query key v = Inr query1 \<Longrightarrow> selects query1 = selects query"
  by (auto simp: filterQuery_entry_def where_clause_def Let_def split: option.splits if_splits)

lemma filterQuery_forEach_selects:
  "filterQuery_forEach ext em query entries = Inr query1 \<Longrightarrow> selects query1 = selects query"
proof (induction entries arbitrary: query)
  case Nil
  then show ?case by simp
next
  case (Cons e entries)
  obtain k w where e: "e = (k, w)" by (cases e)
  from Cons.prems e obtain q where
    q: "filterQuery_entry ext em query k w = Inr q"
       "filterQuery_forEach ext em q entries = Inr query1"
    by (auto split: sum.splits)
  from Cons.IH[OF q(2)] filterQuery_entry_selects[OF q(1)] show ?case by simp
qed

lemma applyOrdering_selects:
  "applyOrdering query entitySlug em queryParams = Inr query1 \<Longrightarrow>
   selects query1 = selects query"
  by (auto simp: applyOrdering_def orderBy_def Let_def split: option.splits if_splits)

lemma findAll_selects:
  assumes "findAll fuel ext entitySlug queryParams fullVersion = Some (Inr call)"
  shows "\<forall>c \<in> set (selects (paginate_query call)). visible_column c"
proof -
  from assms obtain em md query1 query2 query3 where
    lr: "loadRelations fuel ext
           (select (createQueryBuilder ''entity'')
              (getVisibleProps (properties em) ''entity'' (fullVersion = Some True)))
           md (relationships em) (requestedRelations_of queryParams) ''entity'' =
         Some (Inr query1)"
    and fq: "filterQuery ext query1 queryParams em = Inr query2"
    and ao: "applyOrdering query2 entitySlug em queryParams = Inr query3"
    and pq: "paginate_query call = query3"
    by (auto simp: findAll_def Let_def split: sum.splits option.splits)
  have "\<forall>c \<in> set (selects (select (createQueryBuilder ''entity'')
              (getVisibleProps (properties em) ''entity'' (fullVersion = Some True)))).
          visible_column c"
    by (auto simp: select_def intro: getVisibleProps_visible)
  with lr have "\<forall>c \<in> set (selects query1). visible_column c"
    unfolding loadRelations_def by (rule loadRelations_forEach_selects)
  with fq ao pq show ?thesis
    by (simp add: filterQuery_def filterQuery_forEach_selects applyOrdering_selects)
qed

lemma findOne_query_selects:
  assumes "findOne_query fuel ext entitySlug i queryParams fullVersion = Some (Inr query1)"
  shows "\<forall>c \<in> set (selects query1). visible_column c"
proof -
  from assms have "\<exists>(em :: EntityManifest) md. loadRelations fuel ext
           (where_clause
              (select (createQueryBuilder ''entity'')
                 (getVisibleProps (properties em) ''entity'' (fullVersion = Some True)))
              ''entity.id = :id'' [(''id'', PNumber i)])
           md (relationships em) (requestedRelations_of queryParams) ''entity'' =
         Some (Inr query1)"
    by (simp add: findOne_query_def Let_def split: sum.splits) blast
  then obtain em :: EntityManifest and md where
    lr: "loadRelations fuel ext
           (where_clause
              (select (createQueryBuilder ''entity'')
                 (getVisibleProps (properties em) ''entity'' (fullVersion = Some True)))
              ''entity.id = :id'' [(''id'', PNumber i)])
           md (relationships em) (requestedRelations_of queryParams) ''entity'' =
         Some (Inr query1)"
    by blast
  have "\<forall>c \<in> set (selects (where_clause
              (select (createQueryBuilder ''entity'')
                 (getVisibleProps (properties em) ''entity'' (fullVersion = Some True)))
              ''entity.id = :id'' [(''id'', PNumber i)])).
          visible_column c"
    by (auto simp: select_def where_clause_def intro: getVisibleProps_visible)
  with lr show ?thesis
    unfolding loadRelations_def by (rule loadRelations_forEach_selects)
qed

text \<open>A column \<open>A.password\<close>, for an alias \<open>A\<close> without a dot, is not among the columns
  that \<open>getVisibleProps\<close> can produce, under whatever alias and property list.\<close>

lemma takeWhile_before_dot:
  "CHR ''.'' \<notin> set A \<Longrightarrow> takeWhile (\<lambda>c. c \<noteq> CHR ''.'') (A @ CHR ''.'' # rest) = A"
  by (induction A) auto

lemma password_column_not_visible:
  assumes "CHR ''.'' \<notin> set A"
  shows "\<not> visible_column (A @ ''.password'')"
proof
  assume "visible_column (A @ ''.password'')"
  then obtain props a fv where "A @ ''.password'' \<in> set (getVisibleProps props a fv)"
    unfolding visible_column_def by blast
  then consider (id_column) "A @ ''.password'' = a @ ''.id''"
    | (named) n where "A @ ''.password'' = a @ ''.'' @ n" "n \<noteq> ''password''"
    by (auto simp: getVisibleProps_def)
  then show False
  proof cases
    case id_column
    then have "rev (A @ ''.password'') = rev (a @ ''.id'')" by simp
    then show False by simp
  next
    case named
    have tA: "takeWhile (\<lambda>c. c \<noteq> CHR ''.'') (A @ ''.password'') = A"
      using assms by (simp add: takeWhile_before_dot)
    show False
    proof (cases "CHR ''.'' \<in> set a")
      case False
      then have "takeWhile (\<lambda>c. c \<noteq> CHR ''.'') (a @ ''.'' @ n) = a"
        by (simp add: takeWhile_before_dot)
      with tA named(1) have "A = a" by simp
      with named show False by simp
    next
      case True
      then obtain a1 a2 where a: "a = a1 @ CHR ''.'' # a2" "CHR ''.'' \<notin> set a1"
        by (auto dest: split_list_first)
      then have "takeWhile (\<lambda>c. c \<noteq> CHR ''.'') (a @ ''.'' @ n) = a1"
        by (simp add: takeWhile_before_dot)
      with tA named(1) have "A = a1" by simp
      with named(1) a(1) have "''password'' = a2 @ ''.'' @ n" by simp
      then have "CHR ''.'' \<in> set ''password''" by (metis in_set_conv_decomp append_Cons append_Nil)
      then show False by simp
    qed
  qed
qed

text \<open>
  C3 (as the code has it). For every property list, alias and value of the
  \<open>fullVersion\<close> flag, the column list built by \<open>getVisibleProps\<close> never contains the
  column of a property named \<open>password\<close>, that is \<open>alias.password\<close>; and in the query that
  \<open>findAll\<close> hands to pagination and in the query that \<open>findOne\<close> runs, no column
  \<open>A.password\<close> is selected, for the entity alias and for every other alias \<open>A\<close> without a
  dot. The exclusion is by name only.
\<close>

theorem read_queries_never_select_password_named:
  "a @ ''.password'' \<notin> set (getVisibleProps props a full) \<and>
   (\<forall>call A. findAll fuel ext entitySlug queryParams fullVersion = Some (Inr call) \<and>
        CHR ''.'' \<notin> set A \<longrightarrow> A @ ''.password'' \<notin> set (selects (paginate_query call))) \<and>
   (\<forall>query1 A. findOne_query fuel ext entitySlug i queryParams fullVersion = Some (Inr query1) \<and>
        CHR ''.'' \<notin> set A \<longrightarrow> A @ ''.password'' \<notin> set (selects query1))"
proof (intro conjI allI impI)
  show "a @ ''.password'' \<notin> set (getVisibleProps props a full)"
    by (auto simp: getVisibleProps_def)
next
  fix call A
  assume "findAll fuel ext entitySlug queryParams fullVersion = Some (Inr call) \<and>
        CHR ''.'' \<notin> set A"
  with findAll_selects password_column_not_visible
  show "A @ ''.password'' \<notin> set (selects (paginate_query call))" by blast
next
  fix query1 A
  assume "findOne_query fuel ext entitySlug i queryParams fullVersion = Some (Inr query1) \<and>
        CHR ''.'' \<notin> set A"
  with findOne_query_selects password_column_not_visible
  show "A @ ''.password'' \<notin> set (selects query1)" by blast
qed

text \<open>Cats listed with their owners, and one cat read with its owner: the owner has a
  property named \<open>password\<close>, and its column is not selected.\<close>

theorem read_queries_never_select_password_named_witness:
  "(\<exists>call. findAll 1 sample ''cats'' (Some [(''relations'', QStr ''owner'')]) (Some True) =
             Some (Inr call) \<and>
      ''entityOwner.password'' \<notin> set (selects (paginate_query call)) \<and>
      ''entityOwner.email'' \<in> set (selects (paginate_query call))) \<and>
   (\<exists>query1. findOne_query 1 sample ''cats'' 7 (Some [(''relations'', QStr ''owner'')])
               (Some True) = Some (Inr query1) \<and>
      ''entityOwner.password'' \<notin> set (selects query1) \<and>
      ''entityOwner.email'' \<in> set (selects query1))"
proof -
  have "map_option (map_sum id (\<lambda>c. selects (paginate_query c)))
          (findAll 1 sample ''cats'' (Some [(''relations'', QStr ''owner'')]) (Some True)) =
        Some (Inr [''entity.id'', ''entity.name'', ''entity.age'', ''entity.check_in'',
                   ''entityOwner.id'', ''entityOwner.name'', ''entityOwner.email''])"
    by code_simp
  then obtain call where
    c: "findAll 1 sample ''cats'' (Some [(''relations'', QStr ''owner'')]) (Some True) =
          Some (Inr call)"
    and cs: "''entityOwner.email'' \<in> set (selects (paginate_query call))"
    by (cases "findAll 1 sample ''cats'' (Some [(''relations'', QStr ''owner'')]) (Some True)")
       (auto simp: map_sum_def split: sum.splits)
  have "map_option (map_sum id selects)
          (findOne_query 1 sample ''cats'' 7 (Some [(''relations'', QStr ''owner'')])
             (Some True)) =
        Some (Inr [''entity.id'', ''entity.name'', ''entity.age'', ''entity.check_in'',
                   ''entityOwner.id'', ''entityOwner.name'', ''entityOwner.email''])"
    by code_simp
  then obtain query1 where
    q: "findOne_query 1 sample ''cats'' 7 (Some [(''relations'', QStr ''owner'')])
          (Some True) = Some (Inr query1)"
    and qs: "''entityOwner.email'' \<in> set (selects query1)"
    by (cases "findOne_query 1 sample ''cats'' 7 (Some [(''relations'', QStr ''owner'')])
                 (Some True)")
       (auto simp: map_sum_def split: sum.splits)
  have d: "CHR ''.'' \<notin> set ''entityOwner''" by simp
  note inst = read_queries_never_select_password_named
         [of _ _ _ 1 sample "''cats''" "Some [(''relations'', QStr ''owner'')]" "Some True" 7]
  from inst[THEN conjunct2, THEN conjunct1, rule_format, of call "''entityOwner''"] c d
  have n1: "''entityOwner.password'' \<notin> set (selects (paginate_query call))" by simp
  from inst[THEN conjunct2, THEN conjunct2, rule_format, of query1 "''entityOwner''"] q d
  have n2: "''entityOwner.password'' \<notin> set (selects query1)" by simp
  from c cs n1 q qs n2 show ?thesis by blast
qed

text \<open>
  C3 (as stated) fails for a property that is password-typed under another name: a
  \<open>Password\<close> property \<open>secret\<close> that is not hidden is selected, with and without
  \<open>fullVersion\<close>.
\<close>

theorem getVisibleProps_password_typed_selected:
  "''entity.secret'' \<in> set (getVisibleProps
      [\<lparr>prop_name = ''secret'', prop_type = Password, prop_hidden = False\<rparr>] ''entity'' False)
   \<and> ''entity.secret'' \<in> set (getVisibleProps
      [\<lparr>prop_name = ''secret'', prop_type = Password, prop_hidden = False\<rparr>] ''entity'' True)"
  by (simp add: getVisibleProps_def)

subsection \<open>Validation of filter names\<close>

lemma validated_name_find:
  "validated_name em propName =
     (\<not> (find (\<lambda>prop. prop_name prop = propName \<and> \<not> prop_hidden prop) (properties em) = None \<and>
         find (\<lambda>relationship. rel_name relationship = first_segment propName)
           (relationships em) = None))"
  by (auto simp: validated_name_def find_None_iff)

lemma filterQuery_entry_rejects:
  assumes "selected_suffix ext key = Some suffix" "suffix \<noteq> []"
      and "\<not> validated_name em (js_replace key suffix [])"
  shows "filterQuery_entry ext em query key v =
           Inl (HttpException (Message (''Property '' @ js_replace key suffix [] @
                  '' does not exist in '' @ className em)) BAD_REQUEST)"
  using assms by (simp add: filterQuery_entry_def validated_name_find Let_def)

lemma filterQuery_entry_accepts:
  assumes "filterQuery_entry ext em query key v = Inr query1"
  shows "\<exists>suffix. selected_suffix ext key = Some suffix \<and> suffix \<noteq> [] \<and>
           validated_name em (js_replace key suffix [])"
  using assms
  by (auto simp: filterQuery_entry_def validated_name_find Let_def
        split: option.splits if_splits)

lemma filterQuery_forEach_accepts:
  assumes "filterQuery_forEach ext em query entries = Inr query1" "(key, v) \<in> set entries"
  shows "\<exists>suffix. selected_suffix ext key = Some suffix \<and> suffix \<noteq> [] \<and>
           validated_name em (js_replace key suffix [])"
  using assms
proof (induction entries arbitrary: query)
  case Nil
  then show ?case by simp
next
  case (Cons e entries)
  obtain k w where e: "e = (k, w)" by (cases e)
  from Cons.prems(1) e obtain q where
    q: "filterQuery_entry ext em query k w = Inr q"
       "filterQuery_forEach ext em q entries = Inr query1"
    by (auto split: sum.splits)
  show ?case
  proof (cases "(key, v) = e")
    case True
    with e q(1) filterQuery_entry_accepts show ?thesis by blast
  next
    case False
    with Cons.prems(2) have "(key, v) \<in> set entries" by simp
    from Cons.IH[OF q(2) this] show ?thesis .
  qed
qed

text \<open>
  C4 (as the code has it). For a filter key, after the selected suffix is removed the
  remaining name is checked in this way: it must be the name of a property of the entity
  that is not hidden, or its first dot-separated segment must be the name of a relationship
  of the entity. A key with no suffix, and a key whose name passes neither check, is
  rejected with a bad-request exception; and whenever \<open>filterQuery\<close> returns a query, every
  non-reserved key has passed the check. The part of a relation path after the relation
  name is not looked at.
\<close>

theorem filterQuery_validates_filter_names:
  "(selected_suffix ext key = None \<longrightarrow>
      filterQuery_entry ext em query key v =
        Inl (HttpException (Message ''Query param key should include an operator suffix'')
               BAD_REQUEST)) \<and>
   (\<forall>suffix. selected_suffix ext key = Some suffix \<and> suffix \<noteq> [] \<and>
        \<not> validated_name em (js_replace key suffix []) \<longrightarrow>
      filterQuery_entry ext em query key v =
        Inl (HttpException (Message (''Property '' @ js_replace key suffix [] @
               '' does not exist in '' @ className em)) BAD_REQUEST)) \<and>
   (\<forall>query1. filterQuery ext query (Some qp) em = Inr query1 \<and> (key, v) \<in> set qp \<and>
        key \<notin> set (QUERY_PARAMS_RESERVED_WORDS ext) \<longrightarrow>
      (\<exists>suffix. selected_suffix ext key = Some suffix \<and> suffix \<noteq> [] \<and>
         validated_name em (js_replace key suffix [])))"
proof (intro conjI allI impI)
  assume "selected_suffix ext key = None"
  then show "filterQuery_entry ext em query key v =
        Inl (HttpException (Message ''Query param key should include an operator suffix'')
               BAD_REQUEST)"
    by (simp add: filterQuery_entry_def)
next
  fix suffix
  assume "selected_suffix ext key = Some suffix \<and> suffix \<noteq> [] \<and>
        \<not> validated_name em (js_replace key suffix [])"
  then show "filterQuery_entry ext em query key v =
        Inl (HttpException (Message (''Property '' @ js_replace key suffix [] @
               '' does not exist in '' @ className em)) BAD_REQUEST)"
    by (simp add: filterQuery_entry_rejects)
next
  fix query1
  assume a: "filterQuery ext query (Some qp) em = Inr query1 \<and> (key, v) \<in> set qp \<and>
        key \<notin> set (QUERY_PARAMS_RESERVED_WORDS ext)"
  then have "(key, v) \<in> set (filter (\<lambda>(key, val). key \<notin> set (QUERY_PARAMS_RESERVED_WORDS ext)) qp)"
    by simp
  moreover from a have "filterQuery_forEach ext em query
      (filter (\<lambda>(key, val). key \<notin> set (QUERY_PARAMS_RESERVED_WORDS ext)) qp) = Inr query1"
    by (simp add: filterQuery_def)
  ultimately show "\<exists>suffix. selected_suffix ext key = Some suffix \<and> suffix \<noteq> [] \<and>
         validated_name em (js_replace key suffix [])"
    by (rule filterQuery_forEach_accepts[rotated])
qed

text \<open>
  On the cats of the sample application: \<open>colour_eq\<close> names no property and no
  relationship and is rejected; \<open>colour\<close> has no suffix and is rejected; \<open>age_gte\<close> is
  accepted, and \<open>age\<close> is a visible property.
\<close>

theorem filterQuery_validates_filter_names_witness:
  "filterQuery_entry sample cat_manifest (createQueryBuilder ''entity'') ''colour_eq''
     (QStr ''red'') =
     Inl (HttpException (Message ''Property colour does not exist in Cat'') BAD_REQUEST) \<and>
   filterQuery_entry sample cat_manifest (createQueryBuilder ''entity'') ''colour''
     (QStr ''red'') =
     Inl (HttpException (Message ''Query param key should include an operator suffix'')
            BAD_REQUEST) \<and>
   (\<exists>suffix. selected_suffix sample ''age_gte'' = Some suffix \<and> suffix \<noteq> [] \<and>
      validated_name cat_manifest (js_replace ''age_gte'' suffix []))"
proof -
  have s1: "selected_suffix sample ''colour_eq'' = Some ''_eq''"
   and s2: "selected_suffix sample ''colour'' = None"
    by (simp_all add: selected_suffix_def sample_app_def sample_operators_def)
  have nv: "\<not> validated_name cat_manifest (js_replace ''colour_eq'' ''_eq'' [])"
    by (simp add: validated_name_def cat_manifest_def first_segment_def)
  obtain query1 where
    acc: "filterQuery sample (createQueryBuilder ''entity'') (Some [(''age_gte'', QStr ''2'')])
            cat_manifest = Inr query1"
    by (simp add: filterQuery_def filterQuery_entry_def selected_suffix_def sample_app_def
          sample_reserved_words_def sample_operators_def cat_manifest_def first_segment_def)
  have nr: "''age_gte'' \<notin> set (QUERY_PARAMS_RESERVED_WORDS sample)"
    by (simp add: sample_app_def sample_reserved_words_def)
  have cn: "className cat_manifest = ''Cat''"
    by (simp add: cat_manifest_def)
  from filterQuery_validates_filter_names
         [of sample "''colour_eq''" cat_manifest "createQueryBuilder ''entity''" "QStr ''red''"]
       filterQuery_validates_filter_names
         [of sample "''colour''" cat_manifest "createQueryBuilder ''entity''" "QStr ''red''"]
       filterQuery_validates_filter_names
         [of sample "''age_gte''" cat_manifest "createQueryBuilder ''entity''" "QStr ''2''"
             "[(''age_gte'', QStr ''2'')]"]
       s1 s2 nv acc nr cn
  show ?thesis by simp
qed

text \<open>
  C4 (as stated) fails on a relation path: \<open>owner.salary_eq\<close> on cats is accepted and
  resolved to \<open>entityOwner.salary\<close>, although the entity that \<open>owner\<close> points to has no
  property \<open>salary\<close>. Only the relation name is checked.
\<close>

theorem filterQuery_unknown_related_property_accepted:
  "map_sum id wheres
     (filterQuery sample (createQueryBuilder ''entity'')
        (Some [(''owner.salary_eq'', QStr ''2'')]) cat_manifest) =
     Inr [''entityOwner.salary = :value''] \<and>
   map_sum id relations (getEntityMetadata sample ''Cat'') =
     Inr [\<lparr>propertyName = ''owner'', inverseTargetName = ''Owner''\<rparr>] \<and>
   map_sum id (\<lambda>m. find (\<lambda>p. prop_name p = ''salary'') (properties m))
     (getEntityManifest sample
        \<lparr>lookup_className = Some ''Owner'', lookup_slug = None, lookup_fullVersion = None\<rparr>) =
     Inr None"
  by code_simp

subsection \<open>Selection of the operator suffix\<close>

text \<open>
  What the reversal of the suffix list achieves: when the suffix \<open>long\<close> is declared after
  the suffix \<open>short\<close> (as \<open>_gte\<close> after \<open>_gt\<close>, of which it is an extension), a key that
  contains \<open>long\<close> is never parsed with \<open>short\<close>, and it is parsed with \<open>long\<close> when it
  contains none of the suffixes declared after \<open>long\<close>.
\<close>

theorem selected_suffix_prefers_later_declared:
  assumes "WhereKeySuffix_values ext = pre @ short # mid @ long # post"
      and "short \<notin> set (mid @ long # post)"
      and "js_includes key long"
  shows "selected_suffix ext key \<noteq> Some short \<and>
         ((\<forall>s \<in> set post. \<not> js_includes key s) \<longrightarrow> selected_suffix ext key = Some long)"
proof -
  let ?P = "\<lambda>suffix. js_includes key suffix"
  have sel: "selected_suffix ext key =
      (case find ?P (rev post) of None \<Rightarrow> Some long | Some s \<Rightarrow> Some s)"
    using assms(1,3)
    by (simp add: selected_suffix_def find_append_cases split: option.splits)
  show ?thesis
  proof (cases "find ?P (rev post)")
    case None
    with sel assms(2) show ?thesis by auto
  next
    case (Some s)
    from find_SomeD[OF this] have "s \<in> set post" "js_includes key s" by simp_all
    with sel Some assms(2) show ?thesis by auto
  qed
qed

theorem selected_suffix_prefers_later_declared_witness:
  "selected_suffix sample ''age_gte'' = Some ''_gte'' \<and>
   selected_suffix sample ''age_gte'' \<noteq> Some ''_gt''"
  using selected_suffix_prefers_later_declared[of sample "[''_eq'']" "''_gt''" "[]" "''_gte''"
      "[''_lt'', ''_lte'', ''_ne'', ''_like'', ''_in'']" "''age_gte''"]
  by (simp add: sample_app_def sample_operators_def)

text \<open>
  C5. The request \<open>GET /collections/cats?check_in_gte=2024-01-01\<close>, whose key is the
  visible property \<open>check_in\<close> followed by the suffix \<open>_gte\<close>. The suffixes are looked for
  anywhere in the key, not at its end, and \<open>_in\<close> is tried before \<open>_gte\<close>: the key is
  parsed with \<open>_in\<close>, the name left is \<open>check_gte\<close>, and the request is refused with
  \<open>Property check_gte does not exist in Cat\<close>, where the claim has a key ending in
  \<open>_gte\<close> parsed as the \<open>gte\<close> operator.
\<close>

theorem filterQuery_check_in_gte_parsed_with_in:
  "selected_suffix sample ''check_in_gte'' = Some ''_in'' \<and>
   map_sum id wheres
     (filterQuery sample (createQueryBuilder ''entity'')
        (Some [(''check_in_gte'', QStr ''2024-01-01'')]) cat_manifest) =
     Inl (HttpException (Message ''Property check_gte does not exist in Cat'') BAD_REQUEST)"
  by code_simp

subsection \<open>Deleting\<close>

lemma loaded_relation:
  "n \<in> set names \<Longrightarrow> map_of (map (\<lambda>n. (n, f n)) names @ row) n = Some (f n)"
  by (induction names) auto

lemma related_items_check_loaded:
  assumes "set rs \<subseteq> set allrs"
  shows "related_items_check
           (map (\<lambda>n. (n, JArr (map JObj (rel n)))) (map rel_name allrs) @ row) rs =
         (case find (\<lambda>r. rel (rel_name r) \<noteq> []) rs of
            None \<Rightarrow> None
          | Some r \<Rightarrow> Some (blocking_message (rel_name r)))"
  using assms
proof (induction rs)
  case Nil
  then show ?case by simp
next
  case (Cons r rs)
  then have "rel_name r \<in> set (map rel_name allrs)" by auto
  from loaded_relation[OF this, of "\<lambda>n. JArr (map JObj (rel n))" row] Cons
  show ?case by (simp add: blocking_message_def)
qed

text \<open>
  C6. \<open>delete\<close> on an existing item: when a one-to-many relationship of the entity has at
  least one related item, the call fails with the bad-request exception that names such a
  relationship, and the database is unchanged; when all one-to-many relationships are
  empty, the call succeeds, one row is affected, and the database differs from the one
  before exactly by the removal of the row with that id.
\<close>

theorem delete_blocked_by_related_items:
  assumes "getEntityRepository ext (BySlug entitySlug) = Inr repo"
      and "getEntityManifest ext \<lparr>lookup_className = None, lookup_slug = Some entitySlug,
                                  lookup_fullVersion = None\<rparr> = Inr m"
      and "rows (db repo) i = Some row"
  shows "((\<exists>r \<in> set (relationships m). rel_type r = OneToMany \<and>
             related (db repo) i (rel_name r) \<noteq> []) \<longrightarrow>
          (\<exists>r \<in> set (relationships m). rel_type r = OneToMany \<and>
             related (db repo) i (rel_name r) \<noteq> [] \<and>
             delete ext db entitySlug i = (Inl (blocking_message (rel_name r)), db))) \<and>
         ((\<forall>r \<in> set (relationships m). rel_type r = OneToMany \<longrightarrow>
             related (db repo) i (rel_name r) = []) \<longrightarrow>
          delete ext db entitySlug i =
            (Inr \<lparr>affected = 1\<rparr>,
             db(repo := (db repo)\<lparr>rows := (rows (db repo))(i := None)\<rparr>)))"
proof -
  let ?rs = "filter (\<lambda>r. rel_type r = OneToMany) (relationships m)"
  let ?pop = "\<lambda>r. related (db repo) i (rel_name r) \<noteq> []"
  have chk: "related_items_check
           (map (\<lambda>n. (n, JArr (map JObj (related (db repo) i n)))) (map rel_name ?rs) @ row) ?rs =
         (case find ?pop ?rs of None \<Rightarrow> None | Some r \<Rightarrow> Some (blocking_message (rel_name r)))"
    by (rule related_items_check_loaded) simp
  have del: "delete ext db entitySlug i =
      (case find ?pop ?rs of
         None \<Rightarrow> (Inr \<lparr>affected = 1\<rparr>,
                  db(repo := (db repo)\<lparr>rows := (rows (db repo))(i := None)\<rparr>))
       | Some r \<Rightarrow> (Inl (blocking_message (rel_name r)), db))"
    using assms chk
    by (simp add: delete_def repository_findOne_def repository_delete_def Let_def
          split: option.splits)
  show ?thesis
  proof (intro conjI impI)
    assume "\<exists>r \<in> set (relationships m). rel_type r = OneToMany \<and> ?pop r"
    then have "\<exists>r \<in> set ?rs. ?pop r" by auto
    then obtain r where f: "find ?pop ?rs = Some r"
      by (cases "find ?pop ?rs") (auto simp: find_None_iff)
    from find_SomeD[OF this] have "r \<in> set ?rs" "?pop r" by simp_all
    with del f show "\<exists>r \<in> set (relationships m). rel_type r = OneToMany \<and> ?pop r \<and>
             delete ext db entitySlug i = (Inl (blocking_message (rel_name r)), db)"
      by auto
  next
    assume "\<forall>r \<in> set (relationships m). rel_type r = OneToMany \<longrightarrow>
             related (db repo) i (rel_name r) = []"
    then have "find ?pop ?rs = None" by (auto simp: find_None_iff)
    with del show "delete ext db entitySlug i =
            (Inr \<lparr>affected = 1\<rparr>,
             db(repo := (db repo)\<lparr>rows := (rows (db repo))(i := None)\<rparr>))"
      by simp
  qed
qed

text \<open>In the sample database owner 1 has a cat and cannot be deleted; owner 2 has none and
  is deleted.\<close>

theorem delete_blocked_by_related_items_witness:
  "delete sample sample_db ''owners'' 1 = (Inl (blocking_message ''cats''), sample_db) \<and>
   delete sample sample_db ''owners'' 2 =
     (Inr \<lparr>affected = 1\<rparr>,
      sample_db(''owners'' :=
        (sample_db ''owners'')\<lparr>rows := (rows (sample_db ''owners''))(2 := None)\<rparr>))"
proof -
  have r1: "rows (sample_db ''owners'') 1 = Some [(''id'', JNum 1), (''name'', JStr ''Ann'')]"
   and r2: "rows (sample_db ''owners'') 2 = Some [(''id'', JNum 2), (''name'', JStr ''Bob'')]"
    by (simp_all add: sample_db_def)
  from delete_blocked_by_related_items[where db = sample_db and i = 1,
         OF sample_owner_lookup(1) sample_owner_lookup(2)[of None] r1]
       delete_blocked_by_related_items[where db = sample_db and i = 2,
         OF sample_owner_lookup(1) sample_owner_lookup(2)[of None] r2]
  show ?thesis
    by (simp add: owner_manifest_def sample_db_def)
qed

subsection \<open>Storing\<close>

text \<open>
  C7. \<open>store\<close> validates the candidate entity before it writes. When the repository and the
  manifest are found and the related items are fetched: if the validator returns at least
  one error, \<open>store\<close> throws the bad-request exception that carries the error list and the
  database is unchanged; if it returns none, the result and the database are those of the
  one call to \<open>save\<close>. And whenever \<open>store\<close> returns an entity or changes the database,
  the validator has returned the empty list.
\<close>

theorem store_validates_before_saving:
  "(\<forall>repo m relationItems.
      getEntityRepository ext (BySlug entitySlug) = Inr repo \<and>
      getEntityManifest ext \<lparr>lookup_className = None, lookup_slug = Some entitySlug,
                             lookup_fullVersion = Some True\<rparr> = Inr m \<and>
      fetchRelationItemsFromDto ext db itemDto
        (filter (\<lambda>r. rel_type r \<noteq> ManyToMany \<or> owningSide r)
           (filter (\<lambda>r. rel_type r \<noteq> OneToMany) (relationships m))) = Inr relationItems \<longrightarrow>
      (validate ext (store_candidate ext repo m itemDto) m False \<noteq> [] \<longrightarrow>
         store ext db entitySlug itemDto =
           (Inl (HttpException
                   (Errors (validate ext (store_candidate ext repo m itemDto) m False))
                   BAD_REQUEST), db)) \<and>
      (validate ext (store_candidate ext repo m itemDto) m False = [] \<longrightarrow>
         store ext db entitySlug itemDto =
           (fst (repository_save ext (db repo)
                   (js_spread (store_candidate ext repo m itemDto) relationItems)),
            db(repo := snd (repository_save ext (db repo)
                   (js_spread (store_candidate ext repo m itemDto) relationItems)))))) \<and>
   (\<forall>res db1. store ext db entitySlug itemDto = (res, db1) \<and>
        (db1 \<noteq> db \<or> (\<exists>item. res = Inr item)) \<longrightarrow>
      (\<exists>repo m. getEntityRepository ext (BySlug entitySlug) = Inr repo \<and>
         getEntityManifest ext \<lparr>lookup_className = None, lookup_slug = Some entitySlug,
                                lookup_fullVersion = Some True\<rparr> = Inr m \<and>
         validate ext (store_candidate ext repo m itemDto) m False = []))"
  by (auto simp: store_def Let_def split: sum.splits prod.splits if_splits)

text \<open>In the sample application a cat needs a name: a cat without one is refused and
  nothing is written, a cat named Tom is saved.\<close>

theorem store_validates_before_saving_witness:
  "store sample sample_db ''cats'' [(''age'', JNum 3)] =
     (Inl (HttpException
             (Errors [ValidationError ''name'' [(''isNotEmpty'', ''name should not be empty'')] []])
             BAD_REQUEST), sample_db) \<and>
   fst (store sample sample_db ''cats'' [(''name'', JStr ''Tom'')]) =
     Inr [(''name'', JStr ''Tom''), (''id'', JNum 1)]"
proof -
  have f: "fetchRelationItemsFromDto sample sample_db dto rels = Inr []" for dto rels
    by (simp add: sample_app_def)
  have c: "store_candidate sample ''cats'' cat_manifest dto = dto" for dto
    by (simp add: store_candidate_def sample_app_def cat_manifest_def)
  have v1: "validate sample [(''age'', JNum 3)] cat_manifest False =
      [ValidationError ''name'' [(''isNotEmpty'', ''name should not be empty'')] []]"
   and v2: "validate sample [(''name'', JStr ''Tom'')] cat_manifest False = []"
    by (simp_all add: sample_app_def sample_validate_def)
  have s: "repository_save sample = sample_save"
    by (simp add: sample_app_def)
  from store_validates_before_saving[of sample "''cats''" sample_db "[(''age'', JNum 3)]",
         THEN conjunct1, rule_format, of "''cats''" cat_manifest "[]"]
       store_validates_before_saving[of sample "''cats''" sample_db "[(''name'', JStr ''Tom'')]",
         THEN conjunct1, rule_format, of "''cats''" cat_manifest "[]"]
  show ?thesis
    by (simp add: sample_cat_lookup f c v1 v2 s sample_save_def js_spread_def js_assign_def
          Let_def)
qed

subsection \<open>The page number\<close>

lemma findAll_Some_call:
  assumes "findAll fuel ext entitySlug (Some qp) fullVersion = Some (Inr call)"
  shows "currentPage call = parseInt_or (map_of qp ''page'') 1"
  using assms
  by (auto simp: findAll_def Let_def split: sum.splits option.splits)

lemma parseInt_or_cases:
  "parseInt_or v d = (case parsed_param v of None \<Rightarrow> d | Some n \<Rightarrow> if n = 0 then d else n)"
  by (simp add: parseInt_or_def parsed_param_def split: option.splits)

text \<open>
  C8 (as the code has it). Whenever \<open>findAll\<close> reaches pagination, and \<open>parseInt\<close> of the
  \<open>page\<close> parameter is not a negative number (it is \<open>NaN\<close>, zero or positive), the page
  number passed on equals \<open>max(1, parseInt(page) or 1)\<close> and is at least 1. A negative
  page number is passed on as it is.
\<close>

theorem findAll_currentPage:
  assumes "findAll fuel ext entitySlug (Some qp) fullVersion = Some (Inr call)"
  shows "((\<forall>n. parsed_param (map_of qp ''page'') = Some n \<longrightarrow> 0 \<le> n) \<longrightarrow>
            currentPage call = spec_currentPage (map_of qp ''page'') \<and> 1 \<le> currentPage call) \<and>
         (\<forall>n. parsed_param (map_of qp ''page'') = Some n \<and> n < 0 \<longrightarrow> currentPage call = n)"
  using findAll_Some_call[OF assms]
  by (auto simp: spec_currentPage_def parseInt_or_cases split: option.splits)

text \<open>The request \<open>GET /collections/cats?page=7\<close> asks for page 7.\<close>

theorem findAll_currentPage_witness:
  "\<exists>call. findAll 0 sample ''cats'' (Some [(''page'', QStr ''7'')]) None = Some (Inr call) \<and>
      currentPage call = spec_currentPage (Some (QStr ''7'')) \<and> currentPage call = 7"
proof -
  obtain call where
    c: "findAll 0 sample ''cats'' (Some [(''page'', QStr ''7'')]) None = Some (Inr call)"
    by (simp add: findAll_def sample_cat_lookup sample_app_def sample_reserved_words_def
          sample_getEntityManifest_def
          sample_manifests_def cat_manifest_def sample_getEntityMetadata_def
          sample_relation_targets_def loadRelations_def requested_includes_def
          requestedRelations_of_def queryParam_def filterQuery_def applyOrdering_def)
  have p: "parsed_param (map_of [(''page'', QStr ''7'')] ''page'') = Some 7"
    by (simp add: parsed_param_def js_parseInt_def is_js_space_def is_digit_def
          digits_value_def)
  have "spec_currentPage (Some (QStr ''7'')) = 7"
    by (simp add: spec_currentPage_def parseInt_or_def js_parseInt_def is_js_space_def
          is_digit_def digits_value_def)
  with findAll_currentPage[OF c] p c show ?thesis by simp
qed

text \<open>
  C8 (as stated) fails on \<open>page=-3\<close>: \<open>parseInt\<close> gives \<open>-3\<close>, which is truthy, so \<open>-3\<close>
  is the page number passed to pagination, where the stated formula gives 1.
\<close>

theorem findAll_negative_page_passed_on:
  "map_option (map_sum id currentPage)
     (findAll 0 sample ''cats'' (Some [(''page'', QStr ''-3'')]) None) = Some (Inr (- 3)) \<and>
   spec_currentPage (Some (QStr ''-3'')) = 1"
  by code_simp

subsection \<open>Generated schemas\<close>

lemma reduce_columns_nullable:
  "p \<in> set props \<Longrightarrow>
   \<exists>c. map_of (foldl (\<lambda>acc propManifest. js_assign acc (prop_name propManifest)
                        \<lparr>column_name = Some (prop_name propManifest),
                         column_type = Some (propTypeColumnTypes (prop_type propManifest)),
                         nullable = Some True, other_options = []\<rparr>) base props)
          (prop_name p) = Some c \<and> nullable c = Some True"
proof (induction props rule: rev_induct)
  case Nil
  then show ?case by simp
next
  case (snoc x xs)
  show ?case
  proof (cases "prop_name x = prop_name p")
    case True
    then show ?thesis by (simp add: map_of_js_assign)
  next
    case False
    with snoc.prems have "p \<in> set xs" by auto
    from snoc.IH[OF this] False show ?thesis by (simp add: map_of_js_assign)
  qed
qed

text \<open>
  C9. \<open>loadEntities\<close> builds one schema per entity manifest, in order and named after the
  class. In the schema of a manifest the column found under the name of each of its
  properties is nullable, whatever the property declares and whatever the base entity has
  under that name; and the schema has the uniqueness constraint on \<open>email\<close> exactly when the
  manifest is authenticable.
\<close>

theorem loadEntities_nullable_columns_unique_email:
  assumes "i < length (getEntityManifests lx)"
  shows "length (loadEntities lx) = length (getEntityManifests lx) \<and>
         schema_name (loadEntities lx ! i) = className (getEntityManifests lx ! i) \<and>
         (\<forall>p \<in> set (properties (getEntityManifests lx ! i)).
            \<exists>c. map_of (columns (loadEntities lx ! i)) (prop_name p) = Some c \<and>
                nullable c = Some True) \<and>
         ((\<lparr>unique_columns = [''email'']\<rparr> \<in> set (uniques (loadEntities lx ! i))) =
            authenticable (getEntityManifests lx ! i))"
  using assms
  by (simp add: loadEntities_def entitySchema_of_def reduce_columns_nullable)

text \<open>In the sample application the owners are authenticable and the cats are not; the
  property \<open>email\<close> of the owners replaces the base column of that name.\<close>

theorem loadEntities_nullable_columns_unique_email_witness:
  "map (\<lambda>n. map_option nullable (map_of (columns (loadEntities sample_loader ! 1)) n))
        [''name'', ''email''] = [Some (Some True), Some (Some True)] \<and>
   uniques (loadEntities sample_loader ! 1) = [\<lparr>unique_columns = [''email'']\<rparr>] \<and>
   uniques (loadEntities sample_loader ! 0) = []"
  using loadEntities_nullable_columns_unique_email[of 1 sample_loader]
        loadEntities_nullable_columns_unique_email[of 0 sample_loader]
  by (simp add: sample_loader_def sample_manifests_def owner_manifest_def cat_manifest_def
        loadEntities_def entitySchema_of_def js_assign_def)

subsection \<open>findAll without query parameters\<close>

text \<open>
  C10. \<open>findAll\<close> called without \<open>queryParams\<close> never returns a page. When the manifest,
  the metadata and the repository are found and the relations are loaded, every step
  before pagination goes through (no filter, the default ordering), and the call ends in
  the \<open>TypeError\<close> of reading \<open>page\<close> of \<open>undefined\<close>.
\<close>

theorem findAll_without_queryParams:
  "(\<forall>call. findAll fuel ext entitySlug None fullVersion \<noteq> Some (Inr call)) \<and>
   (\<forall>entityManifest entityMetadata repo query1.
      getEntityManifest ext \<lparr>lookup_className = None, lookup_slug = Some entitySlug,
                             lookup_fullVersion = fullVersion\<rparr> = Inr entityManifest \<and>
      getEntityMetadata ext (className entityManifest) = Inr entityMetadata \<and>
      getEntityRepository ext (ByMetadata entityMetadata) = Inr repo \<and>
      loadRelations fuel ext
        (select (createQueryBuilder ''entity'')
           (getVisibleProps (properties entityManifest) ''entity'' (fullVersion = Some True)))
        entityMetadata (relationships entityManifest) None ''entity'' = Some (Inr query1)
      \<longrightarrow> findAll fuel ext entitySlug None fullVersion =
            Some (Inl (TypeError ''Cannot read properties of undefined (reading page)'')))"
  by (auto simp: findAll_def Let_def filterQuery_def applyOrdering_def queryParam_def
        requestedRelations_of_def split: sum.splits option.splits)

theorem findAll_without_queryParams_witness:
  "findAll 0 sample ''cats'' None None =
     Some (Inl (TypeError ''Cannot read properties of undefined (reading page)''))"
proof -
  have md: "getEntityMetadata sample (className cat_manifest) =
      Inr \<lparr>targetName = ''Cat'',
           relations = [\<lparr>propertyName = ''owner'', inverseTargetName = ''Owner''\<rparr>]\<rparr>"
    by (simp add: sample_app_def sample_getEntityMetadata_def sample_relation_targets_def
          cat_manifest_def)
  have rp: "getEntityRepository sample (ByMetadata m) = Inr (targetName m)" for m
    by (simp add: sample_app_def)
  obtain query1 where lr: "loadRelations 0 sample
        (select (createQueryBuilder ''entity'')
           (getVisibleProps (properties cat_manifest) ''entity'' (None = Some True)))
        \<lparr>targetName = ''Cat'',
         relations = [\<lparr>propertyName = ''owner'', inverseTargetName = ''Owner''\<rparr>]\<rparr>
        (relationships cat_manifest) None ''entity'' = Some (Inr query1)"
    by (simp add: loadRelations_def cat_manifest_def requested_includes_def)
  from findAll_without_queryParams[of 0 sample "''cats''" None, THEN conjunct2, rule_format,
         OF conjI[OF sample_cat_lookup(2) conjI[OF md conjI[OF rp lr]]]]
  show ?thesis .
qed

end
